theory Spec2Isabelle
  imports Main "HOL-Library.Sublist"
begin

section \<open>JavaScript values\<close>

text \<open>
  Strings are lists of 8-bit characters, read as the code units of a JavaScript string:
  the strings covered are those whose code units are below 256. A value thrown by a
  \<^verbatim>\<open>throw\<close> is either an \<^verbatim>\<open>Error\<close> instance, of which only the message matters here,
  or a primitive that is not an \<^verbatim>\<open>Error\<close> (the \<^verbatim>\<open>instanceof Error\<close> tests of the source
  tell the two apart). A computation that may throw returns \<open>jsThrown + 'a\<close>, with
  \<open>Inl\<close> for the throw.
\<close>

datatype jsThrown = JsError string | JsOther

text \<open>\<^verbatim>\<open>try { body } catch (error) { handler }\<close>\<close>

definition tryCatch :: "jsThrown + 'a \<Rightarrow> (jsThrown \<Rightarrow> jsThrown + 'a) \<Rightarrow> jsThrown + 'a" where
  "tryCatch body handler = (case body of Inl thrown \<Rightarrow> handler thrown | Inr v \<Rightarrow> Inr v)"

text \<open>
  A value produced by \<^verbatim>\<open>JSON.parse\<close>. Object members are kept as an association list
  (the parser leaves one member per key). Numbers are integers: the source only tests them
  for being zero. \<^verbatim>\<open>undefined\<close> is \<open>None\<close> of \<open>json option\<close>.
\<close>

datatype json =
    JNull
  | JBool bool
  | JNum int
  | JStr string
  | JArr "json list"
  | JObj "(string \<times> json) list"

text \<open>Truthiness of a value (\<^verbatim>\<open>!v\<close> is its negation).\<close>

fun truthy :: "json \<Rightarrow> bool" where
  "truthy JNull = False"
| "truthy (JBool b) = b"
| "truthy (JNum n) = (n \<noteq> 0)"
| "truthy (JStr s) = (s \<noteq> [])"
| "truthy (JArr xs) = True"
| "truthy (JObj kvs) = True"

fun truthyU :: "json option \<Rightarrow> bool" where
  "truthyU None = False"
| "truthyU (Some v) = truthy v"

text \<open>Truthiness of an optional string field (\<^verbatim>\<open>undefined\<close> and \<^verbatim>\<open>''\<close> are falsy).\<close>

fun truthyS :: "string option \<Rightarrow> bool" where
  "truthyS None = False"
| "truthyS (Some s) = (s \<noteq> [])"

text \<open>\<^verbatim>\<open>a || b\<close> on optional strings with a string default.\<close>

definition orElse :: "string option \<Rightarrow> string \<Rightarrow> string" where
  "orElse a d = (case a of None \<Rightarrow> d | Some s \<Rightarrow> if s = [] then d else s)"

subsection \<open>String operations\<close>

text \<open>\<^verbatim>\<open>s.startsWith(p)\<close>\<close>

definition startsWith :: "string \<Rightarrow> string \<Rightarrow> bool" where
  "startsWith s p = (take (length p) s = p)"

text \<open>\<^verbatim>\<open>s.substring(n)\<close> for \<open>n\<close> within the string.\<close>

definition substring :: "string \<Rightarrow> nat \<Rightarrow> string" where
  "substring s n = drop n s"

text \<open>
  \<^verbatim>\<open>s.toLowerCase()\<close>: the letters A to Z and the capital letters of the range 0xC0 to
  0xDE (0xD7, the multiplication sign, is not one) have a lower-case form; every other
  character is kept.
\<close>

definition upperLetters :: string where
  "upperLetters =
     ''ABCDEFGHIJKLMNOPQRSTUVWXYZ'' @
     [CHR 0xC0, CHR 0xC1, CHR 0xC2, CHR 0xC3, CHR 0xC4, CHR 0xC5, CHR 0xC6, CHR 0xC7,
      CHR 0xC8, CHR 0xC9, CHR 0xCA, CHR 0xCB, CHR 0xCC, CHR 0xCD, CHR 0xCE, CHR 0xCF,
      CHR 0xD0, CHR 0xD1, CHR 0xD2, CHR 0xD3, CHR 0xD4, CHR 0xD5, CHR 0xD6,
      CHR 0xD8, CHR 0xD9, CHR 0xDA, CHR 0xDB, CHR 0xDC, CHR 0xDD, CHR 0xDE]"

definition lowerLetters :: string where
  "lowerLetters =
     ''abcdefghijklmnopqrstuvwxyz'' @
     [CHR 0xE0, CHR 0xE1, CHR 0xE2, CHR 0xE3, CHR 0xE4, CHR 0xE5, CHR 0xE6, CHR 0xE7,
      CHR 0xE8, CHR 0xE9, CHR 0xEA, CHR 0xEB, CHR 0xEC, CHR 0xED, CHR 0xEE, CHR 0xEF,
      CHR 0xF0, CHR 0xF1, CHR 0xF2, CHR 0xF3, CHR 0xF4, CHR 0xF5, CHR 0xF6,
      CHR 0xF8, CHR 0xF9, CHR 0xFA, CHR 0xFB, CHR 0xFC, CHR 0xFD, CHR 0xFE]"

definition lowerChar :: "char \<Rightarrow> char" where
  "lowerChar c = (case map_of (zip upperLetters lowerLetters) c of None \<Rightarrow> c | Some l \<Rightarrow> l)"

definition toLowerCase :: "string \<Rightarrow> string" where
  "toLowerCase s = map lowerChar s"

text \<open>
  The decimal digits of an integer, with a sign when negative. \<^verbatim>\<open>n.toString()\<close> prints
  an integer of magnitude below \<open>2 ^ 53\<close> this way; the examples use it for status codes.
\<close>

definition digitChar :: "nat \<Rightarrow> char" where
  "digitChar d = ''0123456789'' ! d"

fun natToString :: "nat \<Rightarrow> string" where
  "natToString n = (if n < 10 then [digitChar n] else natToString (n div 10) @ [digitChar (n mod 10)])"

declare natToString.simps [simp del]

definition decimalString :: "int \<Rightarrow> string" where
  "decimalString i = (if i < 0 then CHR ''-'' # natToString (nat (- i)) else natToString (nat i))"

section \<open>Types (src/types/index.ts)\<close>

datatype ParamLocation = InPath | InQuery | InBody | InHeader

record EndpointParameter =
  p_name :: string
  p_in :: ParamLocation
  p_required :: bool
  p_type :: string
  p_description :: string

text \<open>
  The values of type \<^verbatim>\<open>number\<close> are left open: they are the type parameter \<open>'n\<close>, and
  the functions that print a number take \<^verbatim>\<open>Number.prototype.toString\<close> as their
  parameter \<open>toStr\<close>. What it prints is a numeral, \<^verbatim>\<open>NaN\<close> or an infinity: never a
  name that an object inherits.
\<close>

record 'n EndpointResponse =
  r_status :: 'n
  r_description :: string
  r_schema :: "json option"

record 'n GeneratedEndpoint =
  e_path :: string
  e_method :: string
  e_description :: string
  e_parameters :: "EndpointParameter list option"
  e_responses :: "'n EndpointResponse list option"

record GeneratedNode =
  n_name :: string
  n_type :: string
  n_code :: string
  n_filepath :: string

text \<open>The field \<^verbatim>\<open>steps\<close> of a workflow has a type of the runner library and is left out.\<close>

record 'n GeneratedWorkflow =
  w_name :: string
  w_description :: string
  w_filepath :: string
  w_endpoints :: "'n GeneratedEndpoint list"

text \<open>
  A \<^verbatim>\<open>GeneratedBackend\<close> reaches the generators by an unchecked cast of parsed JSON, and
  \<^verbatim>\<open>generateOpenAPISpec\<close> itself reads \<^verbatim>\<open>backend.name || 'Generated API'\<close>: the
  top-level fields can be missing at run time, so each is an option.
\<close>

record 'n GeneratedBackend =
  name :: "string option"
  description :: "string option"
  version :: "string option"
  nodes :: "GeneratedNode list option"
  workflows :: "'n GeneratedWorkflow list option"
  endpoints :: "'n GeneratedEndpoint list option"

text \<open>The operation objects built by \<^verbatim>\<open>addEndpointToSpec\<close>.\<close>

record OaParameter =
  op_name :: string
  op_in :: ParamLocation
  op_description :: string
  op_required :: bool
  op_schema_type :: "string option"

text \<open>
  \<^verbatim>\<open>requestBody\<close>: its \<^verbatim>\<open>content\<close> is the constant
  \<^verbatim>\<open>{'application/json': {schema: {type: 'object', properties: {}}}}\<close>.
\<close>

record RequestBody =
  rb_description :: string
  rb_required :: bool

text \<open>A response object; \<open>resp_content\<close> holds the schema under \<^verbatim>\<open>content['application/json'].schema\<close>.\<close>

record OaResponse =
  resp_description :: string
  resp_content :: "json option"

record Operation =
  summary :: string
  o_description :: string
  parameters :: "OaParameter list option"
  requestBody :: "RequestBody option"
  responses :: "string \<rightharpoonup> OaResponse"

text \<open>
  A path item: its own properties, which are what the served document holds, and the
  operation that has become its prototype, if an assignment has replaced the prototype.
\<close>

record PathItem =
  pi_own :: "string \<rightharpoonup> Operation"
  pi_proto :: "Operation option"

record Info =
  title :: "string option"
  i_description :: "string option"
  i_version :: "string option"

record OpenAPISpec =
  openapi :: string
  info :: Info
  servers :: "string list"
  paths :: "string \<rightharpoonup> PathItem"
  components :: "(string \<rightharpoonup> json) option"

section \<open>The specification projector (src/generator/openApiGenerator.ts)\<close>

text \<open>
  Calls of the logger are left out here and below: the logger is taken to return
  normally, and what it prints is not part of any result.
\<close>

definition convertParameter :: "EndpointParameter \<Rightarrow> OaParameter" where
  "convertParameter param =
     (if p_in param = InBody then
        \<lparr>op_name = p_name param, op_in = p_in param, op_description = p_description param,
         op_required = p_required param, op_schema_type = None\<rparr>
      else
        \<lparr>op_name = p_name param, op_in = p_in param, op_description = p_description param,
         op_required = p_required param, op_schema_type = Some (p_type param)\<rparr>)"

definition convertResponse :: "'n EndpointResponse \<Rightarrow> OaResponse" where
  "convertResponse response =
     (let result = \<lparr>resp_description = r_description response, resp_content = None\<rparr>
      in (if truthyU (r_schema response) then result\<lparr>resp_content := r_schema response\<rparr> else result))"

text \<open>Lines 58 to 66: the key under which the endpoint is stored.\<close>

definition normalizePath :: "string \<Rightarrow> string" where
  "normalizePath p0 =
     (let path = (if startsWith p0 ''/api'' then substring p0 4 else p0)
      in (if \<not> startsWith path ''/'' then ''/'' @ path else path))"

text \<open>Lines 84 to 108: \<^verbatim>\<open>operation.parameters\<close> and \<^verbatim>\<open>operation.requestBody\<close>.\<close>

definition addParameters :: "'n GeneratedEndpoint \<Rightarrow> Operation \<Rightarrow> Operation" where
  "addParameters endpoint operation =
     (case e_parameters endpoint of
        None \<Rightarrow> operation
      | Some ps \<Rightarrow>
          if length ps > 0 then
            (let operation1 = operation\<lparr>parameters := Some (map convertParameter ps)\<rparr>;
                 bodyParams = filter (\<lambda>p. p_in p = InBody) ps
             in (case bodyParams of
                   [] \<Rightarrow> operation1
                 | b0 # _ \<Rightarrow>
                     operation1\<lparr>requestBody :=
                                  Some \<lparr>rb_description = p_description b0, rb_required = p_required b0\<rparr>,
                                parameters :=
                                  Some (filter (\<lambda>p. op_in p \<noteq> InBody) (map convertParameter ps))\<rparr>))
          else operation)"

text \<open>Lines 112 to 114: the loop over the supplied responses.\<close>

fun addResponseEntries ::
  "('n \<Rightarrow> string) \<Rightarrow> (string \<rightharpoonup> OaResponse) \<Rightarrow> 'n EndpointResponse list
     \<Rightarrow> (string \<rightharpoonup> OaResponse)" where
  "addResponseEntries toStr m [] = m"
| "addResponseEntries toStr m (response # rest) =
     addResponseEntries toStr (m(toStr (r_status response) \<mapsto> convertResponse response)) rest"

text \<open>Lines 110 to 120.\<close>

definition addResponses ::
  "('n \<Rightarrow> string) \<Rightarrow> 'n GeneratedEndpoint \<Rightarrow> Operation \<Rightarrow> Operation" where
  "addResponses toStr endpoint operation =
     (case e_responses endpoint of
        None \<Rightarrow>
          operation\<lparr>responses := (responses operation)(''200'' \<mapsto>
            \<lparr>resp_description = ''Successful operation'', resp_content = None\<rparr>)\<rparr>
      | Some rs \<Rightarrow>
          if length rs > 0 then
            operation\<lparr>responses := addResponseEntries toStr (responses operation) rs\<rparr>
          else
            operation\<lparr>responses := (responses operation)(''200'' \<mapsto>
              \<lparr>resp_description = ''Successful operation'', resp_content = None\<rparr>)\<rparr>)"

text \<open>Lines 77 to 120: the operation object of one endpoint.\<close>

definition buildOperation :: "('n \<Rightarrow> string) \<Rightarrow> 'n GeneratedEndpoint \<Rightarrow> Operation" where
  "buildOperation toStr endpoint =
     addResponses toStr endpoint
       (addParameters endpoint
          \<lparr>summary = e_description endpoint, o_description = e_description endpoint,
           parameters = None, requestBody = None, responses = Map.empty\<rparr>)"

text \<open>
  \<^verbatim>\<open>item[key] = value\<close> on a path item. The name \<^verbatim>\<open>__proto__\<close> is an accessor that
  every object made by \<^verbatim>\<open>{}\<close> inherits: assigning an object to it replaces the prototype
  of the item and adds no property. Every other name becomes a property of the item.
\<close>

definition assignProperty :: "PathItem \<Rightarrow> string \<Rightarrow> Operation \<Rightarrow> PathItem" where
  "assignProperty item key v =
     (if key = ''__proto__'' then item\<lparr>pi_proto := Some v\<rparr>
      else item\<lparr>pi_own := (pi_own item)(key \<mapsto> v)\<rparr>)"

text \<open>
  \<^verbatim>\<open>item[key]\<close>, when it is an operation: a property of the item, or for the name
  \<^verbatim>\<open>__proto__\<close> the prototype. (A name that the item inherits yields a value that is no
  operation.)
\<close>

definition readProperty :: "PathItem \<Rightarrow> string \<Rightarrow> Operation option" where
  "readProperty item key = (if key = ''__proto__'' then pi_proto item else pi_own item key)"

text \<open>
  \<^verbatim>\<open>addEndpointToSpec\<close> mutates \<^verbatim>\<open>spec\<close>; here it returns the updated specification.
  A path key starts with \<^verbatim>\<open>/\<close>, so it is never a name that objects inherit, and the
  path item is created whatever the method is.
\<close>

definition addEndpointToSpec ::
  "('n \<Rightarrow> string) \<Rightarrow> OpenAPISpec \<Rightarrow> 'n GeneratedEndpoint \<Rightarrow> OpenAPISpec" where
  "addEndpointToSpec toStr spec endpoint =
     (let path = normalizePath (e_path endpoint);
          pathItem = (case paths spec path of
                        None \<Rightarrow> \<lparr>pi_own = Map.empty, pi_proto = None\<rparr>
                      | Some item \<Rightarrow> item);
          method = toLowerCase (e_method endpoint);
          operation = buildOperation toStr endpoint
      in spec\<lparr>paths := (paths spec)(path \<mapsto> assignProperty pathItem method operation)\<rparr>)"

fun addEndpoints ::
  "('n \<Rightarrow> string) \<Rightarrow> OpenAPISpec \<Rightarrow> 'n GeneratedEndpoint list \<Rightarrow> OpenAPISpec" where
  "addEndpoints toStr spec [] = spec"
| "addEndpoints toStr spec (endpoint # rest) =
     addEndpoints toStr (addEndpointToSpec toStr spec endpoint) rest"

text \<open>Lines 12 to 28: the specification before any endpoint is added.\<close>

definition baseSpec :: "'n GeneratedBackend \<Rightarrow> OpenAPISpec" where
  "baseSpec backend =
     \<lparr>openapi = ''3.0.0'',
      info = \<lparr>title = name backend, i_description = description backend, i_version = version backend\<rparr>,
      servers = [''/api''],
      paths = Map.empty,
      components = Some Map.empty\<rparr>"

text \<open>Lines 40 to 49: the specification returned by the \<^verbatim>\<open>catch\<close> block.\<close>

definition minimalSpec :: "'n GeneratedBackend \<Rightarrow> OpenAPISpec" where
  "minimalSpec backend =
     \<lparr>openapi = ''3.0.0'',
      info = \<lparr>title = Some (orElse (name backend) ''Generated API''),
              i_description = Some ''Error generating complete specification'',
              i_version = Some (orElse (version backend) ''0.1.0'')\<rparr>,
      servers = [''/api''],
      paths = Map.empty,
      components = None\<rparr>"

text \<open>
  The body of the \<^verbatim>\<open>try\<close> block. \<^verbatim>\<open>for (const endpoint of backend.endpoints)\<close> throws a
  \<^verbatim>\<open>TypeError\<close> when \<^verbatim>\<open>backend.endpoints\<close> is \<^verbatim>\<open>undefined\<close>.
\<close>

definition projectEndpoints ::
  "('n \<Rightarrow> string) \<Rightarrow> 'n GeneratedBackend \<Rightarrow> jsThrown + OpenAPISpec" where
  "projectEndpoints toStr backend =
     (case endpoints backend of
        None \<Rightarrow> Inl (JsError ''backend.endpoints is not iterable'')
      | Some es \<Rightarrow> Inr (addEndpoints toStr (baseSpec backend) es))"

definition generateOpenAPISpec ::
  "('n \<Rightarrow> string) \<Rightarrow> 'n GeneratedBackend \<Rightarrow> jsThrown + OpenAPISpec" where
  "generateOpenAPISpec toStr backend =
     tryCatch (projectEndpoints toStr backend) (\<lambda>error. Inr (minimalSpec backend))"

text \<open>\<^verbatim>\<open>spec.paths[path][method]\<close>: the operation read under a path key and a method key.\<close>

definition operationAt :: "OpenAPISpec \<Rightarrow> string \<Rightarrow> string \<Rightarrow> Operation option" where
  "operationAt spec path method =
     (case paths spec path of None \<Rightarrow> None | Some item \<Rightarrow> readProperty item method)"

text \<open>The operation that the document holds under a path key and a method key.\<close>

definition documentOperation :: "OpenAPISpec \<Rightarrow> string \<Rightarrow> string \<Rightarrow> Operation option" where
  "documentOperation spec path method =
     (case paths spec path of None \<Rightarrow> None | Some item \<Rightarrow> pi_own item method)"

section \<open>The translator (src/generator/promptParser.ts)\<close>

record GeneratorConfig =
  openaiApiKey :: "string option"
  model :: "string option"
  outputDir :: "string option"
  verbose :: "bool option"

text \<open>\<^verbatim>\<open>data\<close> is the parsed reply itself, cast to \<^verbatim>\<open>GeneratedBackend\<close> without a check.\<close>

record GenerationResult =
  success :: bool
  error :: "string option"
  data :: "json option"

definition failure :: "string \<Rightarrow> GenerationResult" where
  "failure msg = \<lparr>success = False, error = Some msg, data = None\<rparr>"

text \<open>
  What lies outside the function: the client constructor, the awaited request up to reading
  \<^verbatim>\<open>completion.choices[0]?.message.content\<close> (\<open>None\<close> for \<^verbatim>\<open>undefined\<close> or
  \<^verbatim>\<open>null\<close>), and \<^verbatim>\<open>JSON.parse\<close> (\<open>None\<close> for a \<^verbatim>\<open>SyntaxError\<close>).
  Each of the first two may throw. The request is identified by its model name and user
  prompt; its other fields are constants of the source.
\<close>

record environment =
  newOpenAI :: "string \<Rightarrow> jsThrown option"
  chatCreate :: "string \<Rightarrow> string \<Rightarrow> jsThrown + string option"
  JSON_parse :: "string \<Rightarrow> json option"

text \<open>The outbound effects, in the order they happen.\<close>

datatype effect = ConstructClient string | IssueRequest string string

text \<open>
  \<^verbatim>\<open>s.trim()\<close> removes white space and line terminators from both ends: below 256
  these are tab, line feed, vertical tab, form feed, carriage return, space and the
  no-break space.
\<close>

definition isWhitespace :: "char \<Rightarrow> bool" where
  "isWhitespace c =
     (c \<in> set [CHR 0x09, CHR 0x0A, CHR 0x0B, CHR 0x0C, CHR 0x0D, CHR 0x20, CHR 0xA0])"

definition trim :: "string \<Rightarrow> string" where
  "trim s = rev (dropWhile isWhitespace (rev (dropWhile isWhitespace s)))"

text \<open>
  \<^verbatim>\<open>v.key\<close> for the keys \<^verbatim>\<open>name\<close>, \<^verbatim>\<open>workflows\<close> and \<^verbatim>\<open>nodes\<close>, which no prototype
  defines: reading a property of \<^verbatim>\<open>null\<close> throws a \<^verbatim>\<open>TypeError\<close>, an object yields its
  member, every other value yields \<^verbatim>\<open>undefined\<close>.
\<close>

fun getProp :: "json \<Rightarrow> string \<Rightarrow> jsThrown + json option" where
  "getProp JNull key = Inl (JsError (''Cannot read properties of null (reading '' @ key @ '')''))"
| "getProp (JObj kvs) key = Inr (map_of kvs key)"
| "getProp v key = Inr None"

text \<open>\<^verbatim>\<open>v?.length\<close>\<close>

fun optLength :: "json option \<Rightarrow> json option" where
  "optLength None = None"
| "optLength (Some JNull) = None"
| "optLength (Some (JStr s)) = Some (JNum (int (length s)))"
| "optLength (Some (JArr xs)) = Some (JNum (int (length xs)))"
| "optLength (Some (JObj kvs)) = map_of kvs ''length''"
| "optLength (Some v) = None"

fun isArray :: "json option \<Rightarrow> bool" where
  "isArray (Some (JArr xs)) = True"
| "isArray v = False"

text \<open>
  Whether converting a value to a string, as a template literal does, throws a
  \<^verbatim>\<open>TypeError\<close>: an object does when it has a member named \<^verbatim>\<open>toString\<close> (a parsed
  member is never callable, and the inherited \<^verbatim>\<open>valueOf\<close> returns the object); an array
  joins the conversions of its elements, skipping \<^verbatim>\<open>null\<close>.
\<close>

fun toStringThrows :: "json \<Rightarrow> bool" where
  "toStringThrows (JObj kvs) = (''toString'' \<in> fst ` set kvs)"
| "toStringThrows (JArr xs) = (\<exists>x\<in>set xs. toStringThrows x)"
| "toStringThrows v = False"

fun toStringThrowsU :: "json option \<Rightarrow> bool" where
  "toStringThrowsU None = False"
| "toStringThrowsU (Some v) = toStringThrows v"

text \<open>\<^verbatim>\<open>a || 0\<close>\<close>

definition orZero :: "json option \<Rightarrow> json" where
  "orZero a = (case a of None \<Rightarrow> JNum 0 | Some v \<Rightarrow> if truthy v then v else JNum 0)"

text \<open>
  Lines 113 to 129, inside the inner \<^verbatim>\<open>try\<close>: the shape check, the four log lines (of
  which the second and third convert a parsed value to a string) and the success result.
\<close>

definition checkShape :: "json \<Rightarrow> jsThrown + GenerationResult" where
  "checkShape parsedData =
     (case getProp parsedData ''name'' of
        Inl thrown \<Rightarrow> Inl thrown
      | Inr nm \<Rightarrow>
          if \<not> truthyU nm then Inr (failure ''Invalid data format in OpenAI response'')
          else
            (case getProp parsedData ''workflows'' of
               Inl thrown \<Rightarrow> Inl thrown
             | Inr wfs \<Rightarrow>
                 if \<not> truthyU wfs \<or> \<not> isArray wfs then
                   Inr (failure ''Invalid data format in OpenAI response'')
                 else if toStringThrowsU nm then
                   Inl (JsError ''Cannot convert object to primitive value'')
                 else
                   (case getProp parsedData ''nodes'' of
                      Inl thrown \<Rightarrow> Inl thrown
                    | Inr nds \<Rightarrow>
                        if toStringThrows (orZero (optLength nds)) then
                          Inl (JsError ''Cannot convert object to primitive value'')
                        else Inr \<lparr>success = True, error = None, data = Some parsedData\<rparr>)))"

text \<open>Lines 109 to 136: the inner \<^verbatim>\<open>try\<close> with its \<^verbatim>\<open>catch\<close>.\<close>

definition decodeReply :: "environment \<Rightarrow> string \<Rightarrow> jsThrown + GenerationResult" where
  "decodeReply env content =
     tryCatch
       (case JSON_parse env content of
          None \<Rightarrow> Inl (JsError ''Unexpected token in JSON'')
        | Some parsedData \<Rightarrow> checkShape parsedData)
       (\<lambda>parseError. Inr (failure ''Failed to parse OpenAI response as JSON''))"

text \<open>\<^verbatim>\<open>error instanceof Error ? error.message : 'Unknown error'\<close>\<close>

fun messageOf :: "jsThrown \<Rightarrow> string" where
  "messageOf (JsError msg) = msg"
| "messageOf JsOther = ''Unknown error''"

text \<open>
  \<^verbatim>\<open>parsePrompt\<close>: the result with which the returned promise settles, and the outbound
  effects performed. Calls of the logger are not recorded.
\<close>

definition parsePrompt ::
  "environment \<Rightarrow> string \<Rightarrow> GeneratorConfig \<Rightarrow> (jsThrown + GenerationResult) \<times> effect list" where
  "parsePrompt env prompt config =
     (if prompt = [] \<or> length (trim prompt) = 0 then
        (Inr (failure ''Empty prompt provided''), [])
      else
        (case openaiApiKey config of
           None \<Rightarrow> (Inr (failure ''OpenAI API key is required''), [])
         | Some apiKey \<Rightarrow>
             if apiKey = [] then (Inr (failure ''OpenAI API key is required''), [])
             else
               (case newOpenAI env apiKey of
                  Some thrown \<Rightarrow> (Inr (failure (messageOf thrown)), [ConstructClient apiKey])
                | None \<Rightarrow>
                    (let m = orElse (model config) ''gpt-4o'';
                         effects = [ConstructClient apiKey, IssueRequest m prompt]
                     in (case chatCreate env m prompt of
                           Inl thrown \<Rightarrow> (Inr (failure (messageOf thrown)), effects)
                         | Inr None \<Rightarrow> (Inr (failure ''No content in OpenAI response''), effects)
                         | Inr (Some content) \<Rightarrow>
                             if content = [] then
                               (Inr (failure ''No content in OpenAI response''), effects)
                             else
                               (tryCatch (decodeReply env content)
                                  (\<lambda>error. Inr (failure (messageOf error))), effects))))))"

text \<open>The two decode failures and the failures of the outer \<^verbatim>\<open>catch\<close>.\<close>

definition malformedResponse :: GenerationResult where
  "malformedResponse = failure ''Failed to parse OpenAI response as JSON''"

definition invalidShape :: GenerationResult where
  "invalidShape = failure ''Invalid data format in OpenAI response''"

section \<open>The file system\<close>

text \<open>
  The files and directories that exist, and the calls that the operating system refuses
  (a fault names the thrown value). Paths are joined with \<^verbatim>\<open>/\<close>.
  \<^verbatim>\<open>fs.existsSync\<close> never throws.

  \<^verbatim>\<open>fs.writeFileSync\<close> opens the file with flag \<^verbatim>\<open>w\<close>, which creates or empties it, and
  then writes. A fault at opening leaves the files as they were; a fault while writing
  leaves the file with the characters written so far, whose number the fault gives.
  \<^verbatim>\<open>fs.mkdirSync\<close> with \<^verbatim>\<open>recursive\<close> creates the directory and the missing ones above
  it; a fault leaves those of them that it names.
\<close>

datatype writeFault = FaultAtOpen jsThrown | FaultAtWrite jsThrown nat

record fileSystem =
  fs_files :: "string \<rightharpoonup> string"
  fs_dirs :: "string set"
  fs_mkdirFault :: "string \<Rightarrow> (jsThrown \<times> string set) option"
  fs_writeFault :: "string \<Rightarrow> writeFault option"
  fs_readFault :: "string \<Rightarrow> jsThrown option"

definition existsSync :: "fileSystem \<Rightarrow> string \<Rightarrow> bool" where
  "existsSync fs p = (p \<in> dom (fs_files fs) \<or> p \<in> fs_dirs fs)"

text \<open>The directories above a path: its proper prefixes that end before a \<^verbatim>\<open>/\<close>.\<close>

definition ancestors :: "string \<Rightarrow> string set" where
  "ancestors p = set (map (\<lambda>i. take i p) (filter (\<lambda>i. p ! i = CHR ''/'') [1..<length p]))"

definition mkdirSync :: "fileSystem \<Rightarrow> string \<Rightarrow> (jsThrown + unit) \<times> fileSystem" where
  "mkdirSync fs p =
     (case fs_mkdirFault fs p of
        Some (thrown, made) \<Rightarrow> (Inl thrown, fs\<lparr>fs_dirs := fs_dirs fs \<union> (made \<inter> ancestors p)\<rparr>)
      | None \<Rightarrow> (Inr (), fs\<lparr>fs_dirs := fs_dirs fs \<union> insert p (ancestors p)\<rparr>))"

definition writeFileSync :: "fileSystem \<Rightarrow> string \<Rightarrow> string \<Rightarrow> (jsThrown + unit) \<times> fileSystem" where
  "writeFileSync fs p content =
     (case fs_writeFault fs p of
        None \<Rightarrow> (Inr (), fs\<lparr>fs_files := (fs_files fs)(p \<mapsto> content)\<rparr>)
      | Some (FaultAtOpen thrown) \<Rightarrow> (Inl thrown, fs)
      | Some (FaultAtWrite thrown n) \<Rightarrow>
          (Inl thrown, fs\<lparr>fs_files := (fs_files fs)(p \<mapsto> take n content)\<rparr>))"

definition readFileSync :: "fileSystem \<Rightarrow> string \<Rightarrow> jsThrown + string" where
  "readFileSync fs p =
     (case fs_readFault fs p of
        Some thrown \<Rightarrow> Inl thrown
      | None \<Rightarrow>
          (case fs_files fs p of
             Some content \<Rightarrow> Inr content
           | None \<Rightarrow>
               if p \<in> fs_dirs fs then
                 Inl (JsError ''EISDIR: illegal operation on a directory, read'')
               else
                 Inl (JsError (''ENOENT: no such file or directory, open '' @ [CHR 0x27] @ p @
                               [CHR 0x27]))))"

section \<open>The documentation renderer (src/generator/documentationGenerator.ts)\<close>

text \<open>
  Outside the function: the working directory, the text returned by
  \<^verbatim>\<open>getDefaultTemplate\<close>, and \<^verbatim>\<open>ejs.render\<close>, which returns the page or throws
  (a syntax error of the template, a field of the model that the template dereferences
  and that is missing).
\<close>

record 'n renderer =
  cwd :: string
  getDefaultTemplate :: string
  ejs_render :: "string \<Rightarrow> 'n GeneratedBackend \<Rightarrow> jsThrown + string"

text \<open>Lines 44 to 63: the page returned by the \<^verbatim>\<open>catch\<close> block.\<close>

definition errorPage :: "string \<Rightarrow> string" where
  \<open>errorPage msg =
     ''\<newline>      <!DOCTYPE html>\<newline>      <html>\<newline>        <head>\<newline>'' @
     ''          <title>Error - API Documentation</title>\<newline>          <style>\<newline>'' @
     ''            body { font-family: Arial, sans-serif; margin: 40px; line-height: 1.6; }\<newline>'' @
     ''            .error { color: red; border: 1px solid red; padding: 20px; border-radius: 5px; }\<newline>'' @
     ''          </style>\<newline>        </head>\<newline>        <body>\<newline>'' @
     ''          <h1>Error Generating Documentation</h1>\<newline>          <div class="error">\<newline>'' @
     ''            <p>There was an error generating the documentation:</p>\<newline>            <p>'' @
     msg @
     ''</p>\<newline>          </div>\<newline>'' @
     ''          <p>Please check the server logs for more information.</p>\<newline>'' @
     ''        </body>\<newline>      </html>\<newline>    ''\<close>

text \<open>Lines 15 to 25: the template file is created when it does not exist.\<close>

definition ensureTemplate :: "'n renderer \<Rightarrow> fileSystem \<Rightarrow> (jsThrown + unit) \<times> fileSystem" where
  "ensureTemplate r fs =
     (let templatePath = cwd r @ ''/src/templates/documentation.ejs'';
          templateDir = cwd r @ ''/src/templates''
      in if \<not> existsSync fs templatePath then
           (case (if \<not> existsSync fs templateDir then mkdirSync fs templateDir
                  else (Inr (), fs)) of
              (Inl thrown, fs1) \<Rightarrow> (Inl thrown, fs1)
            | (Inr u, fs1) \<Rightarrow> writeFileSync fs1 templatePath (getDefaultTemplate r))
         else (Inr (), fs))"

text \<open>Lines 12 to 39: the body of the \<^verbatim>\<open>try\<close> block.\<close>

definition renderTemplate ::
  "'n renderer \<Rightarrow> fileSystem \<Rightarrow> 'n GeneratedBackend \<Rightarrow> (jsThrown + string) \<times> fileSystem" where
  "renderTemplate r fs backend =
     (case ensureTemplate r fs of
        (Inl thrown, fs1) \<Rightarrow> (Inl thrown, fs1)
      | (Inr u, fs1) \<Rightarrow>
          (case readFileSync fs1 (cwd r @ ''/src/templates/documentation.ejs'') of
             Inl thrown \<Rightarrow> (Inl thrown, fs1)
           | Inr template \<Rightarrow> (ejs_render r template backend, fs1)))"

text \<open>
  \<^verbatim>\<open>renderDocumentation\<close>: the outcome of the returned promise (\<open>Inl\<close> would be a
  rejection) and the file system it leaves.
\<close>

definition renderDocumentation ::
  "'n renderer \<Rightarrow> fileSystem \<Rightarrow> 'n GeneratedBackend \<Rightarrow> (jsThrown + string) \<times> fileSystem" where
  "renderDocumentation r fs backend =
     (case renderTemplate r fs backend of
        (body, fs1) \<Rightarrow> (tryCatch body (\<lambda>error. Inr (errorPage (messageOf error))), fs1))"

section \<open>The current model (src/server.ts)\<close>

text \<open>
  The module variable \<^verbatim>\<open>generatedBackend\<close>, the file system, and what has happened, in
  order: the assignment of the variable, the calls to the file system, the logged error.
\<close>

datatype serverEvent =
    Installed
  | CalledExists string
  | CalledMkdir string
  | CalledWrite string
  | LoggedError jsThrown

record 'n serverState =
  generatedBackend :: "'n GeneratedBackend option"
  disk :: fileSystem
  events :: "serverEvent list"

text \<open>
  Lines 688 to 698, the body of the \<^verbatim>\<open>try\<close> block. \<open>stringify\<close> is
  \<^verbatim>\<open>JSON.stringify(backend, null, 2)\<close>, and \<open>dir\<close> is the working directory.
\<close>

definition saveBackend ::
  "('n GeneratedBackend \<Rightarrow> jsThrown + string) \<Rightarrow> string \<Rightarrow> 'n serverState \<Rightarrow> 'n GeneratedBackend
     \<Rightarrow> (jsThrown + unit) \<times> 'n serverState" where
  "saveBackend stringify dir s backend =
     (let dataPath = dir @ ''/src/generator'';
          s1 = s\<lparr>events := events s @ [CalledExists dataPath]\<rparr>;
          made = (if \<not> existsSync (disk s1) dataPath then
                    (case mkdirSync (disk s1) dataPath of
                       (outcome, fs1) \<Rightarrow>
                         (outcome, s1\<lparr>disk := fs1, events := events s1 @ [CalledMkdir dataPath]\<rparr>))
                  else (Inr (), s1))
      in (case made of
            (Inl thrown, s2) \<Rightarrow> (Inl thrown, s2)
          | (Inr u, s2) \<Rightarrow>
              (case stringify backend of
                 Inl thrown \<Rightarrow> (Inl thrown, s2)
               | Inr text \<Rightarrow>
                   (let file = dataPath @ ''/generated-backend.json'';
                        s3 = s2\<lparr>events := events s2 @ [CalledWrite file]\<rparr>
                    in (case writeFileSync (disk s3) file text of
                          (outcome, fs3) \<Rightarrow> (outcome, s3\<lparr>disk := fs3\<rparr>))))))"

text \<open>Lines 684 to 702. The \<^verbatim>\<open>catch\<close> block logs and returns.\<close>

definition updateGeneratedBackend ::
  "('n GeneratedBackend \<Rightarrow> jsThrown + string) \<Rightarrow> string \<Rightarrow> 'n serverState \<Rightarrow> 'n GeneratedBackend
     \<Rightarrow> 'n serverState" where
  "updateGeneratedBackend stringify dir s backend =
     (let s0 = s\<lparr>generatedBackend := Some backend, events := events s @ [Installed]\<rparr>
      in (case saveBackend stringify dir s0 backend of
            (Inl thrown, s1) \<Rightarrow>
              s1\<lparr>events := events s1 @ [LoggedError thrown]\<rparr>
          | (Inr u, s1) \<Rightarrow> s1))"

section \<open>The specification's wording, for comparison\<close>

text \<open>
  Section 4.3 of the specification: a leading \<^verbatim>\<open>/api\<close> \<^emph>\<open>segment\<close> is stripped, that is
  \<^verbatim>\<open>/api\<close> when it is the whole path or is followed by \<^verbatim>\<open>/\<close>; then the path is made to
  start with \<^verbatim>\<open>/\<close>.
\<close>

definition stripApiSegment :: "string \<Rightarrow> string" where
  "stripApiSegment p = (if p = ''/api'' \<or> prefix ''/api/'' p then drop 4 p else p)"

definition specNormalizePath :: "string \<Rightarrow> string" where
  "specNormalizePath p = (let q = stripApiSegment p in if prefix ''/'' q then q else ''/'' @ q)"

section \<open>Situations of the translator\<close>

text \<open>The service answered the prompt with a non-empty \<open>content\<close>.\<close>

definition replied :: "environment \<Rightarrow> string \<Rightarrow> GeneratorConfig \<Rightarrow> string \<Rightarrow> bool" where
  "replied env prompt config content =
     (trim prompt \<noteq> [] \<and>
      (case openaiApiKey config of
         None \<Rightarrow> False
       | Some apiKey \<Rightarrow> apiKey \<noteq> [] \<and> newOpenAI env apiKey = None) \<and>
      chatCreate env (orElse (model config) ''gpt-4o'') prompt = Inr (Some content) \<and>
      content \<noteq> [])"

text \<open>The client or the request threw \<open>thrown\<close>.\<close>

definition serviceThrew :: "environment \<Rightarrow> string \<Rightarrow> GeneratorConfig \<Rightarrow> jsThrown \<Rightarrow> bool" where
  "serviceThrew env prompt config thrown =
     (trim prompt \<noteq> [] \<and>
      (case openaiApiKey config of
         None \<Rightarrow> False
       | Some apiKey \<Rightarrow>
           apiKey \<noteq> [] \<and>
           (newOpenAI env apiKey = Some thrown \<or>
            newOpenAI env apiKey = None \<and>
            chatCreate env (orElse (model config) ''gpt-4o'') prompt = Inl thrown)))"

section \<open>Example inputs\<close>

definition exampleEndpoint :: "string \<Rightarrow> string \<Rightarrow> string \<Rightarrow> int GeneratedEndpoint" where
  "exampleEndpoint p m d =
     \<lparr>e_path = p, e_method = m, e_description = d, e_parameters = None, e_responses = None\<rparr>"

definition exampleBackend :: "int GeneratedEndpoint list option \<Rightarrow> int GeneratedBackend" where
  "exampleBackend es =
     \<lparr>name = Some ''tasks'', description = Some ''Task service'', version = Some ''0.1.0'',
      nodes = Some [], workflows = Some [], endpoints = es\<rparr>"

definition exampleParameter :: "string \<Rightarrow> ParamLocation \<Rightarrow> bool \<Rightarrow> string \<Rightarrow> EndpointParameter" where
  "exampleParameter n loc req d =
     \<lparr>p_name = n, p_in = loc, p_required = req, p_type = ''string'', p_description = d\<rparr>"

definition exampleResponse :: "int \<Rightarrow> string \<Rightarrow> int EndpointResponse" where
  "exampleResponse st d = \<lparr>r_status = st, r_description = d, r_schema = None\<rparr>"

text \<open>A parser that knows three replies, and a service that answers with the prompt itself.\<close>

definition exampleParse :: "string \<Rightarrow> json option" where
  \<open>exampleParse content =
     (if content = ''null'' then Some JNull
      else if content = ''{}'' then Some (JObj [])
      else if content = ''{"name":"svc","workflows":[]}'' then
        Some (JObj [(''name'', JStr ''svc''), (''workflows'', JArr [])])
      else None)\<close>

definition echoService :: environment where
  "echoService =
     \<lparr>newOpenAI = (\<lambda>apiKey. None), chatCreate = (\<lambda>m prompt. Inr (Some prompt)),
      JSON_parse = exampleParse\<rparr>"

definition failingService :: "string \<Rightarrow> environment" where
  "failingService msg =
     \<lparr>newOpenAI = (\<lambda>apiKey. None), chatCreate = (\<lambda>m prompt. Inl (JsError msg)),
      JSON_parse = exampleParse\<rparr>"

definition silentService :: environment where
  "silentService =
     \<lparr>newOpenAI = (\<lambda>apiKey. None), chatCreate = (\<lambda>m prompt. Inr (Some [])),
      JSON_parse = exampleParse\<rparr>"

definition exampleConfig :: "string option \<Rightarrow> GeneratorConfig" where
  "exampleConfig apiKey = \<lparr>openaiApiKey = apiKey, model = None, outputDir = None, verbose = None\<rparr>"

definition exampleDisk :: "(string \<Rightarrow> writeFault option) \<Rightarrow> (string \<Rightarrow> jsThrown option) \<Rightarrow> fileSystem" where
  "exampleDisk writeFault readFault =
     \<lparr>fs_files = [''/app/src/templates/documentation.ejs'' \<mapsto> ''<h1><%= title %></h1>'',
                  ''/app/src/generator/generated-backend.json'' \<mapsto> ''old''],
      fs_dirs = {''/app/src/templates'', ''/app/src/generator''},
      fs_mkdirFault = (\<lambda>p. None), fs_writeFault = writeFault, fs_readFault = readFault\<rparr>"

definition exampleState :: "(string \<Rightarrow> writeFault option) \<Rightarrow> int serverState" where
  "exampleState writeFault =
     \<lparr>generatedBackend = None, disk = exampleDisk writeFault (\<lambda>p. None), events = []\<rparr>"

definition exampleRenderer :: "int renderer" where
  "exampleRenderer =
     \<lparr>cwd = ''/app'', getDefaultTemplate = ''<h1><%= title %></h1>'',
      ejs_render = (\<lambda>template backend. Inr template)\<rparr>"

section \<open>Properties of the specification projector\<close>

subsection \<open>One endpoint, a sequence of endpoints\<close>

lemma paths_addEndpointToSpec:
  "paths (addEndpointToSpec toStr spec e) =
     (paths spec)(normalizePath (e_path e) \<mapsto>
        assignProperty
          (case paths spec (normalizePath (e_path e)) of
             None \<Rightarrow> \<lparr>pi_own = Map.empty, pi_proto = None\<rparr>
           | Some item \<Rightarrow> item)
          (toLowerCase (e_method e)) (buildOperation toStr e))"
  by (simp add: addEndpointToSpec_def Let_def)

lemma operationAt_addEndpointToSpec:
  "operationAt (addEndpointToSpec toStr spec e) (normalizePath (e_path e)) (toLowerCase (e_method e)) =
     Some (buildOperation toStr e)"
  by (simp add: operationAt_def paths_addEndpointToSpec assignProperty_def readProperty_def)

lemma documentOperation_addEndpointToSpec:
  "documentOperation (addEndpointToSpec toStr spec e) p m =
     (if p = normalizePath (e_path e) \<and> m = toLowerCase (e_method e) \<and> m \<noteq> ''__proto__''
      then Some (buildOperation toStr e)
      else documentOperation spec p m)"
  by (simp add: documentOperation_def paths_addEndpointToSpec assignProperty_def
      split: option.splits)

lemma dom_paths_addEndpointToSpec:
  "dom (paths (addEndpointToSpec toStr spec e)) = insert (normalizePath (e_path e)) (dom (paths spec))"
  by (simp add: paths_addEndpointToSpec)

lemma dom_paths_addEndpoints:
  "dom (paths (addEndpoints toStr spec es)) =
     dom (paths spec) \<union> (\<lambda>e. normalizePath (e_path e)) ` set es"
  by (induction es arbitrary: spec) (auto simp: dom_paths_addEndpointToSpec)

lemma find_snoc:
  "find P (xs @ [x]) = (case find P xs of None \<Rightarrow> (if P x then Some x else None) | Some y \<Rightarrow> Some y)"
  by (induction xs) simp_all

lemma documentOperation_addEndpoints:
  "m \<noteq> ''__proto__'' \<Longrightarrow>
   documentOperation (addEndpoints toStr spec es) p m =
     (case find (\<lambda>e. normalizePath (e_path e) = p \<and> toLowerCase (e_method e) = m) (rev es) of
        None \<Rightarrow> documentOperation spec p m
      | Some e \<Rightarrow> Some (buildOperation toStr e))"
proof (induction es arbitrary: spec)
  case Nil
  then show ?case by simp
next
  case (Cons a es)
  then show ?case
    by (auto simp: find_snoc documentOperation_addEndpointToSpec split: option.splits)
qed

lemma documentOperation_proto:
  "documentOperation (addEndpoints toStr spec es) p ''__proto__'' = documentOperation spec p ''__proto__''"
  by (induction es arbitrary: spec) (simp_all add: documentOperation_addEndpointToSpec)

lemma generate_Some:
  "endpoints backend = Some es \<Longrightarrow>
   generateOpenAPISpec toStr backend = Inr (addEndpoints toStr (baseSpec backend) es)"
  by (simp add: generateOpenAPISpec_def projectEndpoints_def tryCatch_def)

lemma generate_None:
  "endpoints backend = None \<Longrightarrow> generateOpenAPISpec toStr backend = Inr (minimalSpec backend)"
  by (simp add: generateOpenAPISpec_def projectEndpoints_def tryCatch_def)

lemma toLowerCase_examples:
  "toLowerCase ''GET'' = ''get''" "toLowerCase ''get'' = ''get''" "toLowerCase ''POST'' = ''post''"
  "toLowerCase ''__PROTO__'' = ''__proto__''"
  by (simp_all add: toLowerCase_def lowerChar_def upperLetters_def lowerLetters_def)

lemma normalizePath_examples:
  "normalizePath ''/x'' = ''/x''" "normalizePath ''/api/x'' = ''/x''"
  "normalizePath ''/api/tasks'' = ''/tasks''" "normalizePath ''tasks'' = ''/tasks''"
  "normalizePath ''/apiary'' = ''/ary''"
  by (simp_all add: normalizePath_def startsWith_def substring_def)

lemma o_description_buildOperation: "o_description (buildOperation toStr e) = e_description e"
  by (simp add: buildOperation_def addResponses_def addParameters_def Let_def
      split: option.splits list.splits)

subsection \<open>Path keys\<close>

lemma normalizePath_api: "normalizePath (''/api'' @ rest) = (if prefix ''/'' rest then rest else ''/'' @ rest)"
  by (cases rest) (auto simp: normalizePath_def startsWith_def substring_def)

lemma normalizePath_other:
  "\<not> prefix ''/api'' p \<Longrightarrow> normalizePath p = (if prefix ''/'' p then p else ''/'' @ p)"
proof -
  assume np: "\<not> prefix ''/api'' p"
  have a: "startsWith p ''/api'' = prefix ''/api'' p"
    unfolding startsWith_def by (metis prefix_def append_take_drop_id append_eq_conv_conj)
  have b: "startsWith p ''/'' = prefix ''/'' p"
    unfolding startsWith_def by (metis prefix_def append_take_drop_id append_eq_conv_conj)
  from np a b show ?thesis by (simp add: normalizePath_def)
qed

text \<open>
  C1, as the specification words it, fails: the code removes the four characters \<^verbatim>\<open>/api\<close>
  from any path that begins with them, also when they are not a whole segment. An endpoint
  at \<^verbatim>\<open>/apiary\<close> is stored under \<^verbatim>\<open>/ary\<close>, where stripping a leading segment would keep
  \<^verbatim>\<open>/apiary\<close>.
\<close>

theorem C1_counterexample:
  "specNormalizePath ''/apiary'' = ''/apiary'' \<and>
   (\<exists>spec. generateOpenAPISpec decimalString (exampleBackend (Some [exampleEndpoint ''/apiary'' ''GET'' ''Lists hives''])) = Inr spec
      \<and> dom (paths spec) = {''/ary''})"
  by (simp add: specNormalizePath_def stripApiSegment_def generate_Some exampleBackend_def
      dom_paths_addEndpointToSpec baseSpec_def exampleEndpoint_def normalizePath_def startsWith_def
      substring_def)

text \<open>
  C1, amended: the keys of \<^verbatim>\<open>paths\<close> are exactly the normalized paths of the endpoints,
  where normalizing removes the first four characters of a path that begins with the
  characters \<^verbatim>\<open>/api\<close> and then puts \<^verbatim>\<open>/\<close> in front unless the path already starts with
  it. So \<^verbatim>\<open>/api/tasks\<close> and \<^verbatim>\<open>tasks\<close> both give the key \<^verbatim>\<open>/tasks\<close>.
\<close>

theorem C1_path_key:
  "(endpoints backend = Some es \<longrightarrow>
      (\<exists>spec. generateOpenAPISpec toStr backend = Inr spec \<and>
              dom (paths spec) = (\<lambda>e. normalizePath (e_path e)) ` set es)) \<and>
   normalizePath (''/api'' @ rest) = (if prefix ''/'' rest then rest else ''/'' @ rest) \<and>
   (\<not> prefix ''/api'' p \<longrightarrow> normalizePath p = (if prefix ''/'' p then p else ''/'' @ p))"
proof (intro conjI impI)
  assume "endpoints backend = Some es"
  then show "\<exists>spec. generateOpenAPISpec toStr backend = Inr spec \<and>
              dom (paths spec) = (\<lambda>e. normalizePath (e_path e)) ` set es"
    by (simp add: generate_Some dom_paths_addEndpoints baseSpec_def)
next
  show "normalizePath (''/api'' @ rest) = (if prefix ''/'' rest then rest else ''/'' @ rest)"
    by (rule normalizePath_api)
next
  assume "\<not> prefix ''/api'' p"
  then show "normalizePath p = (if prefix ''/'' p then p else ''/'' @ p)"
    by (rule normalizePath_other)
qed

theorem C1_path_key_witness:
  "endpoints (exampleBackend (Some [exampleEndpoint ''/api/tasks'' ''GET'' ''List'',
                                    exampleEndpoint ''tasks'' ''POST'' ''Add''])) =
     Some [exampleEndpoint ''/api/tasks'' ''GET'' ''List'', exampleEndpoint ''tasks'' ''POST'' ''Add''] \<and>
   \<not> prefix ''/api'' ''tasks'' \<and>
   (\<exists>spec. generateOpenAPISpec decimalString (exampleBackend (Some [exampleEndpoint ''/api/tasks'' ''GET'' ''List'',
                                    exampleEndpoint ''tasks'' ''POST'' ''Add''])) = Inr spec \<and>
           dom (paths spec) = {''/tasks''}) \<and>
   normalizePath ''/api/tasks'' = ''/tasks'' \<and> normalizePath ''tasks'' = ''/tasks''"
  using C1_path_key [of "exampleBackend (Some [exampleEndpoint ''/api/tasks'' ''GET'' ''List'',
                                    exampleEndpoint ''tasks'' ''POST'' ''Add''])"
      "[exampleEndpoint ''/api/tasks'' ''GET'' ''List'', exampleEndpoint ''tasks'' ''POST'' ''Add'']"
      decimalString "''/tasks''" "''tasks''"]
  by (auto simp add: exampleBackend_def exampleEndpoint_def)

subsection \<open>Body parameters\<close>

lemma requestBody_addParameters:
  assumes "e_parameters endpoint = Some (pre @ b # post)"
    and "p_in b = InBody" and "\<forall>p\<in>set pre. p_in p \<noteq> InBody"
  shows "requestBody (addParameters endpoint operation) =
           Some \<lparr>rb_description = p_description b, rb_required = p_required b\<rparr>"
    and "parameters (addParameters endpoint operation) =
           Some (filter (\<lambda>q. op_in q \<noteq> InBody) (map convertParameter (pre @ b # post)))"
proof -
  from assms(3) have "filter (\<lambda>p. p_in p = InBody) pre = []"
    by (induction pre) auto
  with assms(2) have f: "filter (\<lambda>p. p_in p = InBody) (pre @ b # post) = b # filter (\<lambda>p. p_in p = InBody) post"
    by simp
  show "requestBody (addParameters endpoint operation) =
           Some \<lparr>rb_description = p_description b, rb_required = p_required b\<rparr>"
    unfolding addParameters_def assms(1) by (simp add: f Let_def del: filter_append filter.simps)
  show "parameters (addParameters endpoint operation) =
           Some (filter (\<lambda>q. op_in q \<noteq> InBody) (map convertParameter (pre @ b # post)))"
    unfolding addParameters_def assms(1) by (simp add: f Let_def del: filter_append filter.simps)
qed

lemma requestBody_addResponses [simp]:
  "requestBody (addResponses toStr endpoint operation) = requestBody operation"
  "parameters (addResponses toStr endpoint operation) = parameters operation"
  by (simp_all add: addResponses_def split: option.splits)

lemma op_in_convertParameter [simp]: "op_in (convertParameter p) = p_in p"
  by (simp add: convertParameter_def)

lemma filter_convertParameter:
  "filter (\<lambda>q. op_in q \<noteq> InBody) (map convertParameter ps) =
   map convertParameter (filter (\<lambda>p. p_in p \<noteq> InBody) ps)"
  by (induction ps) simp_all

text \<open>
  C2: when the parameters of an endpoint contain a parameter located at \<^verbatim>\<open>body\<close>, and
  \<open>b\<close> is the first of them, the operation stored for the endpoint has a request body
  with the description and the required flag of \<open>b\<close>, and its parameter list is the
  conversion of the parameters that are not located at \<^verbatim>\<open>body\<close>.
\<close>

theorem C2_first_body_parameter:
  assumes "e_parameters endpoint = Some (pre @ b # post)"
    and "p_in b = InBody"
    and "\<forall>p\<in>set pre. p_in p \<noteq> InBody"
  shows "operationAt (addEndpointToSpec toStr spec endpoint) (normalizePath (e_path endpoint))
           (toLowerCase (e_method endpoint)) = Some (buildOperation toStr endpoint) \<and>
         requestBody (buildOperation toStr endpoint) =
           Some \<lparr>rb_description = p_description b, rb_required = p_required b\<rparr> \<and>
         (\<exists>qs. parameters (buildOperation toStr endpoint) = Some qs \<and>
               (\<forall>q\<in>set qs. op_in q \<noteq> InBody) \<and>
               qs = map convertParameter (filter (\<lambda>p. p_in p \<noteq> InBody) (pre @ b # post)))"
proof (intro conjI)
  show "operationAt (addEndpointToSpec toStr spec endpoint) (normalizePath (e_path endpoint))
           (toLowerCase (e_method endpoint)) = Some (buildOperation toStr endpoint)"
    by (simp add: operationAt_addEndpointToSpec)
  show "requestBody (buildOperation toStr endpoint) =
           Some \<lparr>rb_description = p_description b, rb_required = p_required b\<rparr>"
    unfolding buildOperation_def using requestBody_addParameters(1) [OF assms] by simp
  have "parameters (buildOperation toStr endpoint) =
          Some (filter (\<lambda>q. op_in q \<noteq> InBody) (map convertParameter (pre @ b # post)))"
    unfolding buildOperation_def using requestBody_addParameters(2) [OF assms] by simp
  moreover have "filter (\<lambda>q. op_in q \<noteq> InBody) (map convertParameter (pre @ b # post)) =
      map convertParameter (filter (\<lambda>p. p_in p \<noteq> InBody) (pre @ b # post))"
    by (rule filter_convertParameter)
  ultimately show "\<exists>qs. parameters (buildOperation toStr endpoint) = Some qs \<and>
               (\<forall>q\<in>set qs. op_in q \<noteq> InBody) \<and>
               qs = map convertParameter (filter (\<lambda>p. p_in p \<noteq> InBody) (pre @ b # post))"
    by auto
qed

theorem C2_first_body_parameter_witness:
  "e_parameters ((exampleEndpoint ''/api/tasks'' ''POST'' ''Add'')
       \<lparr>e_parameters := Some [exampleParameter ''id'' InPath True ''Identifier'',
                              exampleParameter ''task'' InBody True ''First body'',
                              exampleParameter ''extra'' InBody False ''Second body'']\<rparr>) =
     Some ([exampleParameter ''id'' InPath True ''Identifier''] @
           exampleParameter ''task'' InBody True ''First body'' #
           [exampleParameter ''extra'' InBody False ''Second body'']) \<and>
   p_in (exampleParameter ''task'' InBody True ''First body'') = InBody \<and>
   p_in (exampleParameter ''id'' InPath True ''Identifier'') \<noteq> InBody \<and>
   requestBody (buildOperation decimalString ((exampleEndpoint ''/api/tasks'' ''POST'' ''Add'')
       \<lparr>e_parameters := Some [exampleParameter ''id'' InPath True ''Identifier'',
                              exampleParameter ''task'' InBody True ''First body'',
                              exampleParameter ''extra'' InBody False ''Second body'']\<rparr>)) =
     Some \<lparr>rb_description = ''First body'', rb_required = True\<rparr> \<and>
   parameters (buildOperation decimalString ((exampleEndpoint ''/api/tasks'' ''POST'' ''Add'')
       \<lparr>e_parameters := Some [exampleParameter ''id'' InPath True ''Identifier'',
                              exampleParameter ''task'' InBody True ''First body'',
                              exampleParameter ''extra'' InBody False ''Second body'']\<rparr>)) =
     Some [convertParameter (exampleParameter ''id'' InPath True ''Identifier'')]"
  using C2_first_body_parameter [of "(exampleEndpoint ''/api/tasks'' ''POST'' ''Add'')
       \<lparr>e_parameters := Some [exampleParameter ''id'' InPath True ''Identifier'',
                              exampleParameter ''task'' InBody True ''First body'',
                              exampleParameter ''extra'' InBody False ''Second body'']\<rparr>"
      "[exampleParameter ''id'' InPath True ''Identifier'']"
      "exampleParameter ''task'' InBody True ''First body''"
      "[exampleParameter ''extra'' InBody False ''Second body'']" decimalString]
  by (auto simp add: exampleEndpoint_def exampleParameter_def)

subsection \<open>Merging operations\<close>


text \<open>
  For every other method key the merge is as described: the path keys of the document
  are the normalized paths of the endpoints, and the document holds, under a path key
  and a method key, the operation of the last endpoint of the sequence whose normalized
  path and lower-cased method are these two keys, and nothing when there is no such
  endpoint (\<open>find\<close> on the reversed sequence yields the last one). Endpoints that
  differ in the method therefore share a path entry, of two endpoints with the same path
  and method the later one stays, and no error arises.
\<close>

lemma document_last_write_wins:
  assumes "endpoints backend = Some es"
  shows "\<exists>spec. generateOpenAPISpec toStr backend = Inr spec \<and>
           dom (paths spec) = (\<lambda>e. normalizePath (e_path e)) ` set es \<and>
           (\<forall>p m. m \<noteq> ''__proto__'' \<longrightarrow>
              documentOperation spec p m =
                map_option (buildOperation toStr)
                  (find (\<lambda>e. normalizePath (e_path e) = p \<and> toLowerCase (e_method e) = m) (rev es)))"
proof -
  let ?spec = "addEndpoints toStr (baseSpec backend) es"
  have g: "generateOpenAPISpec toStr backend = Inr ?spec"
    using assms by (rule generate_Some)
  have d: "dom (paths ?spec) = (\<lambda>e. normalizePath (e_path e)) ` set es"
    by (simp add: dom_paths_addEndpoints baseSpec_def)
  have b: "documentOperation (baseSpec backend) p m = None" for p m
    by (simp add: documentOperation_def baseSpec_def)
  have "documentOperation ?spec p m =
          map_option (buildOperation toStr)
            (find (\<lambda>e. normalizePath (e_path e) = p \<and> toLowerCase (e_method e) = m) (rev es))"
    if "m \<noteq> ''__proto__''" for p m
    using that by (simp add: documentOperation_addEndpoints b split: option.splits)
  with g d show ?thesis by blast
qed

lemma document_last_write_wins_example:
  "endpoints (exampleBackend (Some
        [exampleEndpoint ''/x'' ''GET'' ''first'', exampleEndpoint ''/api/x'' ''POST'' ''create'',
         exampleEndpoint ''/x'' ''get'' ''second''])) =
     Some [exampleEndpoint ''/x'' ''GET'' ''first'', exampleEndpoint ''/api/x'' ''POST'' ''create'',
           exampleEndpoint ''/x'' ''get'' ''second''] \<and>
   ''get'' \<noteq> ''__proto__'' \<and> ''post'' \<noteq> ''__proto__'' \<and> ''GET'' \<noteq> ''__proto__'' \<and>
   (\<exists>spec. generateOpenAPISpec decimalString (exampleBackend (Some
        [exampleEndpoint ''/x'' ''GET'' ''first'', exampleEndpoint ''/api/x'' ''POST'' ''create'',
         exampleEndpoint ''/x'' ''get'' ''second''])) = Inr spec \<and>
      dom (paths spec) = {''/x''} \<and>
      map_option o_description (documentOperation spec ''/x'' ''get'') = Some ''second'' \<and>
      map_option o_description (documentOperation spec ''/x'' ''post'') = Some ''create'' \<and>
      documentOperation spec ''/x'' ''GET'' = None)"
proof -
  let ?es = "[exampleEndpoint ''/x'' ''GET'' ''first'', exampleEndpoint ''/api/x'' ''POST'' ''create'',
         exampleEndpoint ''/x'' ''get'' ''second'']"
  have e: "endpoints (exampleBackend (Some ?es)) = Some ?es"
    by (simp add: exampleBackend_def)
  from document_last_write_wins [OF e, of decimalString]
  obtain spec where s: "generateOpenAPISpec decimalString (exampleBackend (Some ?es)) = Inr spec"
    and d: "dom (paths spec) = (\<lambda>e. normalizePath (e_path e)) ` set ?es"
    and k: "\<And>p m. m \<noteq> ''__proto__'' \<Longrightarrow> documentOperation spec p m =
                map_option (buildOperation decimalString)
                  (find (\<lambda>e. normalizePath (e_path e) = p \<and> toLowerCase (e_method e) = m) (rev ?es))"
    by blast
  have d': "dom (paths spec) = {''/x''}"
    unfolding d by (simp add: exampleEndpoint_def normalizePath_examples)
  have 1: "map_option o_description (documentOperation spec ''/x'' ''get'') = Some ''second''"
    by (subst k) (simp_all add: exampleEndpoint_def normalizePath_examples toLowerCase_examples
        o_description_buildOperation)
  have 2: "map_option o_description (documentOperation spec ''/x'' ''post'') = Some ''create''"
    by (subst k) (simp_all add: exampleEndpoint_def normalizePath_examples toLowerCase_examples
        o_description_buildOperation)
  have 3: "documentOperation spec ''/x'' ''GET'' = None"
    by (subst k) (simp_all add: exampleEndpoint_def normalizePath_examples toLowerCase_examples)
  from e s d' 1 2 3 show ?thesis by simp
qed

subsection \<open>Totality\<close>

text \<open>
  C4: \<^verbatim>\<open>generateOpenAPISpec\<close> returns a specification for every backend model. When
  the body of its \<^verbatim>\<open>try\<close> block throws, the result is the minimal specification, whose
  \<^verbatim>\<open>paths\<close> is empty; a model with no endpoints gives a specification whose
  \<^verbatim>\<open>paths\<close> is empty.
\<close>

theorem C4_total:
  "(\<exists>spec. generateOpenAPISpec toStr backend = Inr spec) \<and>
   (projectEndpoints toStr backend = Inl thrown \<longrightarrow>
      generateOpenAPISpec toStr backend = Inr (minimalSpec backend) \<and>
      paths (minimalSpec backend) = Map.empty \<and>
      openapi (minimalSpec backend) = ''3.0.0'' \<and>
      servers (minimalSpec backend) = [''/api''] \<and>
      title (info (minimalSpec backend)) = Some (orElse (name backend) ''Generated API'') \<and>
      i_version (info (minimalSpec backend)) = Some (orElse (version backend) ''0.1.0'')) \<and>
   (endpoints backend' = Some [] \<longrightarrow>
      (\<exists>spec. generateOpenAPISpec toStr backend' = Inr spec \<and> paths spec = Map.empty))"
proof (intro conjI impI)
  show "\<exists>spec. generateOpenAPISpec toStr backend = Inr spec"
    by (cases "endpoints backend") (simp_all add: generate_None generate_Some)
next
  assume "projectEndpoints toStr backend = Inl thrown"
  then show "generateOpenAPISpec toStr backend = Inr (minimalSpec backend)"
    by (simp add: generateOpenAPISpec_def tryCatch_def)
next
  assume "endpoints backend' = Some []"
  then show "\<exists>spec. generateOpenAPISpec toStr backend' = Inr spec \<and> paths spec = Map.empty"
    by (simp add: generate_Some baseSpec_def)
qed (simp_all add: minimalSpec_def)

theorem C4_total_witness:
  "projectEndpoints decimalString (exampleBackend None) = Inl (JsError ''backend.endpoints is not iterable'') \<and>
   endpoints (exampleBackend (Some [])) = Some [] \<and>
   (\<exists>spec. generateOpenAPISpec decimalString (exampleBackend None) = Inr spec \<and> paths spec = Map.empty \<and>
      title (info spec) = Some ''tasks'' \<and> components spec = None) \<and>
   (\<exists>spec. generateOpenAPISpec decimalString (exampleBackend (Some [])) = Inr spec \<and> paths spec = Map.empty \<and>
      components spec = Some Map.empty)"
proof -
  have p: "projectEndpoints decimalString (exampleBackend None) = Inl (JsError ''backend.endpoints is not iterable'')"
    by (simp add: projectEndpoints_def exampleBackend_def)
  have e: "endpoints (exampleBackend (Some [])) = Some []"
    by (simp add: exampleBackend_def)
  from C4_total [of decimalString "exampleBackend None" "JsError ''backend.endpoints is not iterable''"
      "exampleBackend (Some [])"] p e
  have "generateOpenAPISpec decimalString (exampleBackend None) = Inr (minimalSpec (exampleBackend None))"
    and "\<exists>spec. generateOpenAPISpec decimalString (exampleBackend (Some [])) = Inr spec \<and> paths spec = Map.empty"
    by simp_all
  moreover have "generateOpenAPISpec decimalString (exampleBackend (Some [])) = Inr (baseSpec (exampleBackend (Some [])))"
    using e by (simp add: generate_Some)
  ultimately show ?thesis using p e
    by (simp add: minimalSpec_def baseSpec_def exampleBackend_def orElse_def)
qed

subsection \<open>Responses\<close>

lemma decimalString_examples:
  "decimalString 200 = ''200''" "decimalString 404 = ''404''" "decimalString 500 = ''500''"
  by (simp_all add: decimalString_def natToString.simps digitChar_def)

lemma addResponseEntries_find:
  "addResponseEntries toStr m rs k =
     (case find (\<lambda>r. toStr (r_status r) = k) (rev rs) of
        None \<Rightarrow> m k
      | Some r \<Rightarrow> Some (convertResponse r))"
  by (induction rs arbitrary: m) (auto simp: find_snoc split: option.splits)

lemma responses_addParameters [simp]:
  "responses (addParameters endpoint operation) = responses operation"
  by (simp add: addParameters_def Let_def split: option.splits list.splits)

lemma responses_buildOperation_default:
  "e_responses endpoint = None \<or> e_responses endpoint = Some [] \<Longrightarrow>
   responses (buildOperation toStr endpoint) =
     [''200'' \<mapsto> \<lparr>resp_description = ''Successful operation'', resp_content = None\<rparr>]"
  by (auto simp: buildOperation_def addResponses_def)

lemma responses_buildOperation_supplied:
  "e_responses endpoint = Some rs \<Longrightarrow> rs \<noteq> [] \<Longrightarrow>
   responses (buildOperation toStr endpoint) = addResponseEntries toStr Map.empty rs"
  by (simp add: buildOperation_def addResponses_def)

text \<open>
  C8, as stated, fails when two supplied responses have the same status code: the later
  one takes the key and the earlier one does not appear.
\<close>

theorem C8_counterexample:
  "dom (responses (buildOperation decimalString ((exampleEndpoint ''/x'' ''GET'' ''d'')
      \<lparr>e_responses := Some [exampleResponse 200 ''Found'', exampleResponse 200 ''Cached'']\<rparr>))) = {''200''} \<and>
   responses (buildOperation decimalString ((exampleEndpoint ''/x'' ''GET'' ''d'')
      \<lparr>e_responses := Some [exampleResponse 200 ''Found'', exampleResponse 200 ''Cached'']\<rparr>)) ''200'' =
     Some (convertResponse (exampleResponse 200 ''Cached'')) \<and>
   convertResponse (exampleResponse 200 ''Found'') \<noteq> convertResponse (exampleResponse 200 ''Cached'')"
  by (simp add: buildOperation_def addResponses_def exampleEndpoint_def exampleResponse_def
      decimalString_examples convertResponse_def)

text \<open>
  C8, amended: an endpoint without responses, or with an empty list, gets the single
  entry \<^verbatim>\<open>200\<close> with description \<^verbatim>\<open>Successful operation\<close>. When responses are supplied,
  a key holds the conversion of the last supplied response whose status code prints as
  that key, and no other key is present: the keys are the supplied status codes, and
  no default is added.
\<close>

theorem C8_responses:
  "(e_responses endpoint = None \<or> e_responses endpoint = Some [] \<longrightarrow>
      responses (buildOperation toStr endpoint) =
        [''200'' \<mapsto> \<lparr>resp_description = ''Successful operation'', resp_content = None\<rparr>]) \<and>
   (e_responses endpoint' = Some rs \<and> rs \<noteq> [] \<longrightarrow>
      dom (responses (buildOperation toStr endpoint')) = (\<lambda>r. toStr (r_status r)) ` set rs \<and>
      (\<forall>k. responses (buildOperation toStr endpoint') k =
             map_option convertResponse (find (\<lambda>r. toStr (r_status r) = k) (rev rs))))"
proof (intro conjI impI allI)
  assume "e_responses endpoint = None \<or> e_responses endpoint = Some []"
  then show "responses (buildOperation toStr endpoint) =
        [''200'' \<mapsto> \<lparr>resp_description = ''Successful operation'', resp_content = None\<rparr>]"
    by (rule responses_buildOperation_default)
next
  fix k
  assume a: "e_responses endpoint' = Some rs \<and> rs \<noteq> []"
  then have r: "responses (buildOperation toStr endpoint') = addResponseEntries toStr Map.empty rs"
    by (simp add: responses_buildOperation_supplied)
  show "responses (buildOperation toStr endpoint') k =
             map_option convertResponse (find (\<lambda>r. toStr (r_status r) = k) (rev rs))"
    unfolding r by (simp add: addResponseEntries_find split: option.splits)
next
  assume a: "e_responses endpoint' = Some rs \<and> rs \<noteq> []"
  then have r: "responses (buildOperation toStr endpoint') = addResponseEntries toStr Map.empty rs"
    by (simp add: responses_buildOperation_supplied)
  have "(k \<in> dom (addResponseEntries toStr Map.empty rs)) = (k \<in> (\<lambda>r. toStr (r_status r)) ` set rs)" for k
  proof -
    have "(find (\<lambda>r. toStr (r_status r) = k) (rev rs) = None) = (k \<notin> (\<lambda>r. toStr (r_status r)) ` set rs)"
      by (auto simp: find_None_iff)
    then show ?thesis
      by (auto simp: dom_def addResponseEntries_find split: option.splits)
  qed
  then show "dom (responses (buildOperation toStr endpoint')) = (\<lambda>r. toStr (r_status r)) ` set rs"
    unfolding r by blast
qed

theorem C8_responses_witness:
  "e_responses (exampleEndpoint ''/x'' ''GET'' ''d'') = None \<and>
   e_responses ((exampleEndpoint ''/x'' ''GET'' ''d'')
      \<lparr>e_responses := Some [exampleResponse 404 ''Missing'', exampleResponse 404 ''Gone'',
                             exampleResponse 500 ''Failed'']\<rparr>) =
     Some [exampleResponse 404 ''Missing'', exampleResponse 404 ''Gone'',
           exampleResponse 500 ''Failed''] \<and>
   responses (buildOperation decimalString (exampleEndpoint ''/x'' ''GET'' ''d'')) =
     [''200'' \<mapsto> \<lparr>resp_description = ''Successful operation'', resp_content = None\<rparr>] \<and>
   dom (responses (buildOperation decimalString ((exampleEndpoint ''/x'' ''GET'' ''d'')
      \<lparr>e_responses := Some [exampleResponse 404 ''Missing'', exampleResponse 404 ''Gone'',
                             exampleResponse 500 ''Failed'']\<rparr>))) = {''404'', ''500''} \<and>
   responses (buildOperation decimalString ((exampleEndpoint ''/x'' ''GET'' ''d'')
      \<lparr>e_responses := Some [exampleResponse 404 ''Missing'', exampleResponse 404 ''Gone'',
                             exampleResponse 500 ''Failed'']\<rparr>)) ''404'' =
     Some \<lparr>resp_description = ''Gone'', resp_content = None\<rparr> \<and>
   responses (buildOperation decimalString ((exampleEndpoint ''/x'' ''GET'' ''d'')
      \<lparr>e_responses := Some [exampleResponse 404 ''Missing'', exampleResponse 404 ''Gone'',
                             exampleResponse 500 ''Failed'']\<rparr>)) ''200'' = None"
proof -
  let ?rs = "[exampleResponse 404 ''Missing'', exampleResponse 404 ''Gone'',
              exampleResponse 500 ''Failed'']"
  let ?e = "exampleEndpoint ''/x'' ''GET'' ''d''"
  let ?e' = "?e\<lparr>e_responses := Some ?rs\<rparr>"
  have h1: "e_responses ?e = None" by (simp add: exampleEndpoint_def)
  have h2: "e_responses ?e' = Some ?rs \<and> ?rs \<noteq> []" by simp
  from C8_responses [of ?e decimalString ?e' ?rs] h1 h2
  have d: "responses (buildOperation decimalString ?e) =
        [''200'' \<mapsto> \<lparr>resp_description = ''Successful operation'', resp_content = None\<rparr>]"
    and s: "dom (responses (buildOperation decimalString ?e')) =
        (\<lambda>r. decimalString (r_status r)) ` set ?rs"
    and k: "\<And>k. responses (buildOperation decimalString ?e') k =
             map_option convertResponse (find (\<lambda>r. decimalString (r_status r) = k) (rev ?rs))"
    by blast+
  have s': "dom (responses (buildOperation decimalString ?e')) = {''404'', ''500''}"
    unfolding s by (simp add: exampleResponse_def decimalString_examples)
  have k1: "responses (buildOperation decimalString ?e') ''404'' =
      Some \<lparr>resp_description = ''Gone'', resp_content = None\<rparr>"
    unfolding k by (simp add: exampleResponse_def decimalString_examples convertResponse_def)
  have k2: "responses (buildOperation decimalString ?e') ''200'' = None"
    unfolding k by (simp add: exampleResponse_def decimalString_examples)
  from h1 h2 d s' k1 k2 show ?thesis by simp
qed

section \<open>Properties of the translator\<close>

lemma trim_Nil [simp]: "trim [] = []"
  by (simp add: trim_def)

lemma parsePrompt_replied:
  assumes "replied env prompt config content"
  shows "fst (parsePrompt env prompt config) = decodeReply env content"
proof -
  have r: "tryCatch (decodeReply env content) h = decodeReply env content" for h
    by (simp add: decodeReply_def tryCatch_def split: sum.splits option.splits)
  from assms show ?thesis
    by (auto simp: replied_def parsePrompt_def Let_def r split: option.splits)
qed

lemma parsePrompt_serviceThrew:
  assumes "serviceThrew env prompt config thrown"
  shows "fst (parsePrompt env prompt config) = Inr (failure (messageOf thrown))"
  using assms
  by (auto simp: serviceThrew_def parsePrompt_def Let_def split: option.splits)

lemma decodeReply_unparsable:
  "JSON_parse env content = None \<Longrightarrow> decodeReply env content = Inr malformedResponse"
  by (simp add: decodeReply_def tryCatch_def malformedResponse_def)

lemma decodeReply_null:
  "JSON_parse env content = Some JNull \<Longrightarrow> decodeReply env content = Inr malformedResponse"
  by (simp add: decodeReply_def tryCatch_def malformedResponse_def checkShape_def)

lemma decodeReply_invalid:
  assumes "JSON_parse env content = Some v"
    and "getProp v ''name'' = Inr nm" and "getProp v ''workflows'' = Inr wfs"
    and "\<not> truthyU nm \<or> \<not> isArray wfs"
  shows "decodeReply env content = Inr invalidShape"
  using assms
  by (auto simp: decodeReply_def tryCatch_def invalidShape_def checkShape_def)

lemma decode_failures_differ: "malformedResponse \<noteq> invalidShape"
  by (simp add: malformedResponse_def invalidShape_def failure_def)

lemma failure_inject: "failure a = failure b \<longleftrightarrow> a = b"
  by (simp add: failure_def)

text \<open>
  C5, as stated, fails in three places. The reply \<^verbatim>\<open>null\<close> parses, has no \<^verbatim>\<open>name\<close>, and
  yet gives the failure of a reply that does not parse: reading \<^verbatim>\<open>parsedData.name\<close>
  throws inside the inner \<^verbatim>\<open>try\<close>. The empty reply does not parse, and is reported as
  a completion without content before the decoder is reached. And a failure carries
  nothing but a message, so a service whose error has the message of the shape check
  gives the very result of an invalid shape.
\<close>

theorem C5_counterexample:
  "JSON_parse echoService ''null'' = Some JNull \<and>
   fst (parsePrompt echoService ''null'' (exampleConfig (Some ''sk''))) = Inr malformedResponse \<and>
   malformedResponse \<noteq> invalidShape \<and>
   JSON_parse silentService [] = None \<and>
   fst (parsePrompt silentService ''List movies'' (exampleConfig (Some ''sk''))) =
     Inr (failure ''No content in OpenAI response'') \<and>
   failure ''No content in OpenAI response'' \<noteq> malformedResponse \<and>
   fst (parsePrompt (failingService ''Invalid data format in OpenAI response'') ''List movies''
          (exampleConfig (Some ''sk''))) = Inr invalidShape"
proof -
  have w: "trim ''null'' \<noteq> []" "trim ''List movies'' \<noteq> []"
    by (simp_all add: trim_def isWhitespace_def)
  have p: "JSON_parse echoService ''null'' = Some JNull"
    by (simp add: echoService_def exampleParse_def)
  have "replied echoService ''null'' (exampleConfig (Some ''sk'')) ''null''"
    using w by (simp add: replied_def echoService_def exampleConfig_def)
  from parsePrompt_replied [OF this] decodeReply_null [OF p]
  have a: "fst (parsePrompt echoService ''null'' (exampleConfig (Some ''sk''))) = Inr malformedResponse"
    by simp
  have "serviceThrew (failingService ''Invalid data format in OpenAI response'') ''List movies''
          (exampleConfig (Some ''sk'')) (JsError ''Invalid data format in OpenAI response'')"
    using w by (simp add: serviceThrew_def failingService_def exampleConfig_def orElse_def)
  then have b: "fst (parsePrompt (failingService ''Invalid data format in OpenAI response'') ''List movies''
          (exampleConfig (Some ''sk''))) = Inr invalidShape"
    by (simp add: parsePrompt_serviceThrew invalidShape_def)
  have c: "JSON_parse silentService [] = None"
    by (simp add: silentService_def exampleParse_def)
  have d: "fst (parsePrompt silentService ''List movies'' (exampleConfig (Some ''sk''))) =
     Inr (failure ''No content in OpenAI response'')"
    using w by (simp add: parsePrompt_def silentService_def exampleConfig_def Let_def)
  have e: "failure ''No content in OpenAI response'' \<noteq> malformedResponse"
    by (simp add: malformedResponse_def failure_inject)
  from p a b c d e decode_failures_differ show ?thesis by simp
qed

text \<open>
  C5, amended: a reply that is not empty and does not parse gives the failure
  \<^verbatim>\<open>Failed to parse OpenAI response as JSON\<close>; a reply that parses to a value other than
  \<^verbatim>\<open>null\<close> whose \<^verbatim>\<open>name\<close> is missing or falsy, or whose \<^verbatim>\<open>workflows\<close> is not an array,
  gives the failure \<^verbatim>\<open>Invalid data format in OpenAI response\<close>; the two failures
  differ; and when the client or the request throws, the failure carries the thrown
  error's own message, so it differs from both whenever that message is neither of the
  two texts.
\<close>

theorem C5_decode_failures:
  "(replied env prompt config content \<and> JSON_parse env content = None \<longrightarrow>
      fst (parsePrompt env prompt config) = Inr malformedResponse) \<and>
   (replied env prompt' config content' \<and> JSON_parse env content' = Some v \<and>
    getProp v ''name'' = Inr nm \<and> getProp v ''workflows'' = Inr wfs \<and>
    (\<not> truthyU nm \<or> \<not> isArray wfs) \<longrightarrow>
      fst (parsePrompt env prompt' config) = Inr invalidShape) \<and>
   malformedResponse \<noteq> invalidShape \<and>
   (serviceThrew env' prompt'' config' thrown \<and>
    messageOf thrown \<noteq> ''Failed to parse OpenAI response as JSON'' \<and>
    messageOf thrown \<noteq> ''Invalid data format in OpenAI response'' \<longrightarrow>
      fst (parsePrompt env' prompt'' config') = Inr (failure (messageOf thrown)) \<and>
      fst (parsePrompt env' prompt'' config') \<noteq> Inr malformedResponse \<and>
      fst (parsePrompt env' prompt'' config') \<noteq> Inr invalidShape)"
proof (intro conjI impI)
  assume "replied env prompt config content \<and> JSON_parse env content = None"
  then show "fst (parsePrompt env prompt config) = Inr malformedResponse"
    using parsePrompt_replied [of env prompt config content] decodeReply_unparsable [of env content]
    by simp
next
  assume a: "replied env prompt' config content' \<and> JSON_parse env content' = Some v \<and>
    getProp v ''name'' = Inr nm \<and> getProp v ''workflows'' = Inr wfs \<and>
    (\<not> truthyU nm \<or> \<not> isArray wfs)"
  then have "decodeReply env content' = Inr invalidShape"
    by (intro decodeReply_invalid [of env content' v nm wfs]) simp_all
  with a show "fst (parsePrompt env prompt' config) = Inr invalidShape"
    using parsePrompt_replied [of env prompt' config content'] by simp
next
  show "malformedResponse \<noteq> invalidShape" by (rule decode_failures_differ)
next
  assume a: "serviceThrew env' prompt'' config' thrown \<and>
    messageOf thrown \<noteq> ''Failed to parse OpenAI response as JSON'' \<and>
    messageOf thrown \<noteq> ''Invalid data format in OpenAI response''"
  then show r: "fst (parsePrompt env' prompt'' config') = Inr (failure (messageOf thrown))"
    by (simp add: parsePrompt_serviceThrew)
  from a show "fst (parsePrompt env' prompt'' config') \<noteq> Inr malformedResponse"
    unfolding r malformedResponse_def by (simp add: failure_inject)
  from a show "fst (parsePrompt env' prompt'' config') \<noteq> Inr invalidShape"
    unfolding r invalidShape_def by (simp add: failure_inject)
qed

theorem C5_decode_failures_witness:
  "replied echoService ''not json'' (exampleConfig (Some ''sk'')) ''not json'' \<and>
   JSON_parse echoService ''not json'' = None \<and>
   replied echoService ''{}'' (exampleConfig (Some ''sk'')) ''{}'' \<and>
   JSON_parse echoService ''{}'' = Some (JObj []) \<and>
   getProp (JObj []) ''name'' = Inr None \<and> getProp (JObj []) ''workflows'' = Inr None \<and>
   \<not> truthyU None \<and>
   serviceThrew (failingService ''Connection error.'') ''List movies'' (exampleConfig (Some ''sk''))
     (JsError ''Connection error.'') \<and>
   fst (parsePrompt echoService ''not json'' (exampleConfig (Some ''sk''))) =
     Inr (failure ''Failed to parse OpenAI response as JSON'') \<and>
   fst (parsePrompt echoService ''{}'' (exampleConfig (Some ''sk''))) =
     Inr (failure ''Invalid data format in OpenAI response'') \<and>
   fst (parsePrompt (failingService ''Connection error.'') ''List movies'' (exampleConfig (Some ''sk''))) =
     Inr (failure ''Connection error.'')"
proof -
  have w: "trim ''not json'' \<noteq> []" "trim ''{}'' \<noteq> []" "trim ''List movies'' \<noteq> []"
    by (simp_all add: trim_def isWhitespace_def)
  have r1: "replied echoService ''not json'' (exampleConfig (Some ''sk'')) ''not json''"
    and r2: "replied echoService ''{}'' (exampleConfig (Some ''sk'')) ''{}''"
    using w by (simp_all add: replied_def echoService_def exampleConfig_def)
  have p1: "JSON_parse echoService ''not json'' = None"
    and p2: "JSON_parse echoService ''{}'' = Some (JObj [])"
    by (simp_all add: echoService_def exampleParse_def)
  have s: "serviceThrew (failingService ''Connection error.'') ''List movies'' (exampleConfig (Some ''sk''))
     (JsError ''Connection error.'')"
    using w by (simp add: serviceThrew_def failingService_def exampleConfig_def)
  from C5_decode_failures [of echoService "''not json''" "exampleConfig (Some ''sk'')" "''not json''"
      "''{}''" "''{}''" "JObj []" None None "failingService ''Connection error.''" "''List movies''"
      "exampleConfig (Some ''sk'')" "JsError ''Connection error.''"] r1 r2 p1 p2 s
  show ?thesis
    by (simp add: malformedResponse_def invalidShape_def)
qed

text \<open>
  C6: a prompt that is empty after trimming, and a configuration whose credential is
  missing or empty, each give a failure result with no outbound effect: no client has
  been constructed and no request issued.
\<close>

theorem C6_input_errors:
  "(trim prompt = [] \<longrightarrow>
      parsePrompt env prompt config = (Inr (failure ''Empty prompt provided''), [])) \<and>
   (\<not> truthyS (openaiApiKey config') \<longrightarrow>
      parsePrompt env prompt' config' =
        (Inr (failure (if trim prompt' = [] then ''Empty prompt provided''
                       else ''OpenAI API key is required'')), []))"
proof (intro conjI impI)
  assume "trim prompt = []"
  then show "parsePrompt env prompt config = (Inr (failure ''Empty prompt provided''), [])"
    by (simp add: parsePrompt_def)
next
  assume "\<not> truthyS (openaiApiKey config')"
  then show "parsePrompt env prompt' config' =
        (Inr (failure (if trim prompt' = [] then ''Empty prompt provided''
                       else ''OpenAI API key is required'')), [])"
    by (cases "openaiApiKey config'") (auto simp: parsePrompt_def)
qed

theorem C6_input_errors_witness:
  "trim [CHR '' '', CHR 0x09, CHR 0x0A] = [] \<and>
   \<not> truthyS (openaiApiKey (exampleConfig (Some ''''))) \<and>
   parsePrompt echoService [CHR '' '', CHR 0x09, CHR 0x0A] (exampleConfig (Some ''sk'')) =
     (Inr (failure ''Empty prompt provided''), []) \<and>
   parsePrompt echoService ''List movies'' (exampleConfig (Some '''')) =
     (Inr (failure ''OpenAI API key is required''), [])"
proof -
  have t: "trim [CHR '' '', CHR 0x09, CHR 0x0A] = []" "trim ''List movies'' \<noteq> []"
    by (simp_all add: trim_def isWhitespace_def)
  have k: "\<not> truthyS (openaiApiKey (exampleConfig (Some '''')))"
    by (simp add: exampleConfig_def)
  from C6_input_errors [of "[CHR '' '', CHR 0x09, CHR 0x0A]" echoService "exampleConfig (Some ''sk'')"
      "exampleConfig (Some '''')" "''List movies''"] t k
  show ?thesis by simp
qed

text \<open>
  C9: the shape check asks only for a truthy \<^verbatim>\<open>name\<close> and an array \<^verbatim>\<open>workflows\<close>. A
  reply that parses to an object with these two members and no \<^verbatim>\<open>nodes\<close> is returned
  as the data of a success, whatever else it lacks; the example is an object without
  \<^verbatim>\<open>nodes\<close>, \<^verbatim>\<open>description\<close>, \<^verbatim>\<open>version\<close> and \<^verbatim>\<open>endpoints\<close>.
\<close>

theorem C9_unchecked_fields:
  assumes "replied env prompt config content"
    and "JSON_parse env content = Some (JObj kvs)"
    and "map_of kvs ''name'' = Some nm" and "truthy nm" and "\<not> toStringThrows nm"
    and "map_of kvs ''workflows'' = Some (JArr wfs)"
    and "map_of kvs ''nodes'' = None"
  shows "fst (parsePrompt env prompt config) =
           Inr \<lparr>success = True, error = None, data = Some (JObj kvs)\<rparr>"
proof -
  from assms(2-7) have "decodeReply env content =
      Inr \<lparr>success = True, error = None, data = Some (JObj kvs)\<rparr>"
    by (simp add: decodeReply_def tryCatch_def checkShape_def orZero_def)
  with parsePrompt_replied [OF assms(1)] show ?thesis by simp
qed

theorem C9_unchecked_fields_witness:
  \<open>replied echoService ''{"name":"svc","workflows":[]}'' (exampleConfig (Some ''sk''))
     ''{"name":"svc","workflows":[]}'' \<and>
   JSON_parse echoService ''{"name":"svc","workflows":[]}'' =
     Some (JObj [(''name'', JStr ''svc''), (''workflows'', JArr [])]) \<and>
   map_of [(''name'', JStr ''svc''), (''workflows'', JArr [])] ''nodes'' = None \<and>
   map_of [(''name'', JStr ''svc''), (''workflows'', JArr [])] ''description'' = None \<and>
   map_of [(''name'', JStr ''svc''), (''workflows'', JArr [])] ''version'' = None \<and>
   map_of [(''name'', JStr ''svc''), (''workflows'', JArr [])] ''endpoints'' = None \<and>
   fst (parsePrompt echoService ''{"name":"svc","workflows":[]}'' (exampleConfig (Some ''sk''))) =
     Inr \<lparr>success = True, error = None,
          data = Some (JObj [(''name'', JStr ''svc''), (''workflows'', JArr [])])\<rparr>\<close>
proof -
  have w: \<open>trim ''{"name":"svc","workflows":[]}'' \<noteq> []\<close>
    by (simp add: trim_def isWhitespace_def)
  have r: \<open>replied echoService ''{"name":"svc","workflows":[]}'' (exampleConfig (Some ''sk''))
     ''{"name":"svc","workflows":[]}''\<close>
    using w by (simp add: replied_def echoService_def exampleConfig_def)
  have p: \<open>JSON_parse echoService ''{"name":"svc","workflows":[]}'' =
     Some (JObj [(''name'', JStr ''svc''), (''workflows'', JArr [])])\<close>
    by (simp add: echoService_def exampleParse_def)
  from C9_unchecked_fields [OF r p, of "JStr ''svc''" "[]"] r p
  show ?thesis by simp
qed

section \<open>Properties of the documentation renderer\<close>

lemma renderTemplate_read_fault:
  "fst (renderTemplate exampleRenderer
          (exampleDisk (\<lambda>p. None) (\<lambda>p. Some (JsError ''EACCES: permission denied''))) backend) =
     Inl (JsError ''EACCES: permission denied'')"
  by (simp add: renderTemplate_def ensureTemplate_def exampleRenderer_def exampleDisk_def
      existsSync_def readFileSync_def Let_def)

lemma renderDocumentation_fst:
  "fst (renderDocumentation r fs backend) =
     (case fst (renderTemplate r fs backend) of
        Inl thrown \<Rightarrow> Inr (errorPage (messageOf thrown))
      | Inr html \<Rightarrow> Inr html)"
  by (simp add: renderDocumentation_def tryCatch_def split: prod.splits sum.splits)

text \<open>
  C7: \<^verbatim>\<open>renderDocumentation\<close> never rejects. Whatever is thrown while the template is
  created, read or rendered, the result is a complete HTML document, with its own style
  sheet and no reference to anything outside it, that shows the message of the thrown
  error in a paragraph of its body.
\<close>

theorem C7_render_never_rejects:
  \<open>(\<exists>html. fst (renderDocumentation r fs backend) = Inr html) \<and>
   (fst (renderTemplate r fs backend) = Inl thrown \<longrightarrow>
      fst (renderDocumentation r fs backend) =
        Inr (''\<newline>      <!DOCTYPE html>\<newline>      <html>\<newline>        <head>\<newline>'' @
             ''          <title>Error - API Documentation</title>\<newline>          <style>\<newline>'' @
             ''            body { font-family: Arial, sans-serif; margin: 40px; line-height: 1.6; }\<newline>'' @
             ''            .error { color: red; border: 1px solid red; padding: 20px; border-radius: 5px; }\<newline>'' @
             ''          </style>\<newline>        </head>\<newline>        <body>\<newline>'' @
             ''          <h1>Error Generating Documentation</h1>\<newline>          <div class="error">\<newline>'' @
             ''            <p>There was an error generating the documentation:</p>\<newline>            <p>'' @
             messageOf thrown @
             ''</p>\<newline>          </div>\<newline>'' @
             ''          <p>Please check the server logs for more information.</p>\<newline>'' @
             ''        </body>\<newline>      </html>\<newline>    ''))\<close>
  by (simp add: renderDocumentation_fst errorPage_def split: sum.splits)

theorem C7_render_never_rejects_witness:
  \<open>fst (renderTemplate exampleRenderer
          (exampleDisk (\<lambda>p. None) (\<lambda>p. Some (JsError ''EACCES: permission denied'')))
          (exampleBackend None)) = Inl (JsError ''EACCES: permission denied'') \<and>
   fst (renderDocumentation exampleRenderer
          (exampleDisk (\<lambda>p. None) (\<lambda>p. Some (JsError ''EACCES: permission denied'')))
          (exampleBackend None)) =
     Inr (''\<newline>      <!DOCTYPE html>\<newline>      <html>\<newline>        <head>\<newline>'' @
          ''          <title>Error - API Documentation</title>\<newline>          <style>\<newline>'' @
          ''            body { font-family: Arial, sans-serif; margin: 40px; line-height: 1.6; }\<newline>'' @
          ''            .error { color: red; border: 1px solid red; padding: 20px; border-radius: 5px; }\<newline>'' @
          ''          </style>\<newline>        </head>\<newline>        <body>\<newline>'' @
          ''          <h1>Error Generating Documentation</h1>\<newline>          <div class="error">\<newline>'' @
          ''            <p>There was an error generating the documentation:</p>\<newline>            <p>'' @
          ''EACCES: permission denied'' @
          ''</p>\<newline>          </div>\<newline>'' @
          ''          <p>Please check the server logs for more information.</p>\<newline>'' @
          ''        </body>\<newline>      </html>\<newline>    '')\<close>
  using C7_render_never_rejects [of exampleRenderer
      "exampleDisk (\<lambda>p. None) (\<lambda>p. Some (JsError ''EACCES: permission denied''))"
      "exampleBackend None" "JsError ''EACCES: permission denied''"]
    renderTemplate_read_fault [of "exampleBackend None"]
  by simp

section \<open>Properties of the current model\<close>

lemma saveBackend_keeps_model:
  "generatedBackend (snd (saveBackend stringify dir s backend)) = generatedBackend s"
  by (auto simp add: saveBackend_def Let_def split: sum.splits prod.splits)

lemma saveBackend_events:
  "\<exists>rest. events (snd (saveBackend stringify dir s backend)) = events s @ rest \<and> Installed \<notin> set rest"
  by (auto simp add: saveBackend_def Let_def split: sum.splits prod.splits)

lemma mkdirSync_keeps:
  "fs_files (snd (mkdirSync fs p)) = fs_files fs"
  "fs_writeFault (snd (mkdirSync fs p)) = fs_writeFault fs"
  by (simp_all add: mkdirSync_def split: option.splits prod.splits)

lemma saveBackend_write_fault:
  assumes "fs_writeFault (disk s) (dir @ ''/src/generator/generated-backend.json'') = Some fault"
  shows "\<exists>t. fst (saveBackend stringify dir s backend) = Inl t"
    and "q \<noteq> dir @ ''/src/generator/generated-backend.json'' \<Longrightarrow>
         fs_files (disk (snd (saveBackend stringify dir s backend))) q = fs_files (disk s) q"
    and "fs_files (disk (snd (saveBackend stringify dir s backend)))
           (dir @ ''/src/generator/generated-backend.json'') =
         fs_files (disk s) (dir @ ''/src/generator/generated-backend.json'') \<or>
         (\<exists>t n text. fault = FaultAtWrite t n \<and> stringify backend = Inr text \<and>
            fs_files (disk (snd (saveBackend stringify dir s backend)))
              (dir @ ''/src/generator/generated-backend.json'') = Some (take n text))"
proof -
  let ?file = "dir @ ''/src/generator/generated-backend.json''"
  have m: "fs_files (snd (mkdirSync (disk s) (dir @ ''/src/generator''))) = fs_files (disk s)"
    "fs_writeFault (snd (mkdirSync (disk s) (dir @ ''/src/generator''))) = fs_writeFault (disk s)"
    by (rule mkdirSync_keeps)+
  show "\<exists>t. fst (saveBackend stringify dir s backend) = Inl t"
    using assms m
    by (cases fault)
      (auto simp add: saveBackend_def Let_def writeFileSync_def
        split: sum.splits prod.splits option.splits)
  show "fs_files (disk (snd (saveBackend stringify dir s backend))) q = fs_files (disk s) q"
    if "q \<noteq> ?file"
    using assms m that
    by (cases fault)
      (auto simp add: saveBackend_def Let_def writeFileSync_def
        split: sum.splits prod.splits option.splits)
  show "fs_files (disk (snd (saveBackend stringify dir s backend))) ?file =
         fs_files (disk s) ?file \<or>
         (\<exists>t n text. fault = FaultAtWrite t n \<and> stringify backend = Inr text \<and>
            fs_files (disk (snd (saveBackend stringify dir s backend))) ?file = Some (take n text))"
    using assms m
    by (cases fault)
      (auto simp add: saveBackend_def Let_def writeFileSync_def
        split: sum.splits prod.splits option.splits)
qed

text \<open>
  C10: \<^verbatim>\<open>updateGeneratedBackend\<close> assigns the module variable first; every call to the
  file system comes after. The variable holds the new model whatever the file system
  does. When writing the file is refused the error is logged and nothing else happens:
  every other file is as it was, and the file itself is as it was or holds the part of
  the new text that was written before the fault, so it can hold something else than
  the current model.
\<close>

theorem C10_memory_before_disk:
  "generatedBackend (updateGeneratedBackend stringify dir s backend) = Some backend \<and>
   (\<exists>rest. events (updateGeneratedBackend stringify dir s backend) = events s @ Installed # rest \<and>
           Installed \<notin> set rest) \<and>
   (fs_writeFault (disk s) (dir @ ''/src/generator/generated-backend.json'') = Some fault \<longrightarrow>
      generatedBackend (updateGeneratedBackend stringify dir s backend) = Some backend \<and>
      (\<exists>t. last (events (updateGeneratedBackend stringify dir s backend)) = LoggedError t) \<and>
      (\<forall>q. q = dir @ ''/src/generator/generated-backend.json'' \<or>
           fs_files (disk (updateGeneratedBackend stringify dir s backend)) q = fs_files (disk s) q) \<and>
      (fs_files (disk (updateGeneratedBackend stringify dir s backend))
         (dir @ ''/src/generator/generated-backend.json'') =
       fs_files (disk s) (dir @ ''/src/generator/generated-backend.json'') \<or>
       (\<exists>t n text. fault = FaultAtWrite t n \<and> stringify backend = Inr text \<and>
          fs_files (disk (updateGeneratedBackend stringify dir s backend))
            (dir @ ''/src/generator/generated-backend.json'') = Some (take n text))))"
proof -
  let ?file = "dir @ ''/src/generator/generated-backend.json''"
  let ?s0 = "s\<lparr>generatedBackend := Some backend, events := events s @ [Installed]\<rparr>"
  let ?r = "saveBackend stringify dir ?s0 backend"
  let ?u = "updateGeneratedBackend stringify dir s backend"
  have u: "?u =
      (case fst ?r of Inl t \<Rightarrow> (snd ?r)\<lparr>events := events (snd ?r) @ [LoggedError t]\<rparr> | Inr u \<Rightarrow> snd ?r)"
    by (simp add: updateGeneratedBackend_def Let_def split: prod.splits sum.splits)
  have dk: "disk ?u = disk (snd ?r)"
    unfolding u by (simp split: sum.splits)
  have m: "generatedBackend (snd ?r) = Some backend"
    by (simp add: saveBackend_keeps_model)
  obtain rest where e: "events (snd ?r) = events s @ Installed # rest" "Installed \<notin> set rest"
    using saveBackend_events [of stringify dir ?s0 backend] by auto
  have 1: "generatedBackend ?u = Some backend"
    unfolding u using m by (simp split: sum.splits)
  have 2: "\<exists>rest. events ?u = events s @ Installed # rest \<and> Installed \<notin> set rest"
    unfolding u using e by (simp split: sum.splits)
  have 3: "(\<exists>t. last (events ?u) = LoggedError t) \<and>
      (\<forall>q. q = ?file \<or> fs_files (disk ?u) q = fs_files (disk s) q) \<and>
      (fs_files (disk ?u) ?file = fs_files (disk s) ?file \<or>
       (\<exists>t n text. fault = FaultAtWrite t n \<and> stringify backend = Inr text \<and>
          fs_files (disk ?u) ?file = Some (take n text)))"
    if "fs_writeFault (disk s) ?file = Some fault"
  proof -
    from that have f: "fs_writeFault (disk ?s0) ?file = Some fault"
      by simp
    from saveBackend_write_fault(1) [OF f, of stringify backend]
    obtain t where t: "fst ?r = Inl t" by auto
    have a: "\<exists>t. last (events ?u) = LoggedError t"
      unfolding u using t by simp
    have b: "\<forall>q. q = ?file \<or> fs_files (disk ?u) q = fs_files (disk s) q"
      unfolding dk using saveBackend_write_fault(2) [OF f, of _ stringify backend] by auto
    have c: "fs_files (disk ?u) ?file = fs_files (disk s) ?file \<or>
       (\<exists>t n text. fault = FaultAtWrite t n \<and> stringify backend = Inr text \<and>
          fs_files (disk ?u) ?file = Some (take n text))"
      unfolding dk using saveBackend_write_fault(3) [OF f, of stringify backend] by simp
    from a b c show ?thesis by blast
  qed
  from 1 2 3 show ?thesis by blast
qed

theorem C10_memory_before_disk_witness:
  "fs_writeFault (disk (exampleState (\<lambda>p. Some (FaultAtOpen (JsError ''EACCES: permission denied'')))))
     (''/app'' @ ''/src/generator/generated-backend.json'') =
     Some (FaultAtOpen (JsError ''EACCES: permission denied'')) \<and>
   generatedBackend (updateGeneratedBackend (\<lambda>b. Inr ''new'') ''/app''
      (exampleState (\<lambda>p. Some (FaultAtOpen (JsError ''EACCES: permission denied''))))
      (exampleBackend (Some []))) = Some (exampleBackend (Some [])) \<and>
   fs_files (disk (updateGeneratedBackend (\<lambda>b. Inr ''new'') ''/app''
      (exampleState (\<lambda>p. Some (FaultAtOpen (JsError ''EACCES: permission denied''))))
      (exampleBackend (Some [])))) ''/app/src/generator/generated-backend.json'' = Some ''old'' \<and>
   events (updateGeneratedBackend (\<lambda>b. Inr ''new'') ''/app''
      (exampleState (\<lambda>p. Some (FaultAtOpen (JsError ''EACCES: permission denied''))))
      (exampleBackend (Some []))) =
     [Installed, CalledExists ''/app/src/generator'',
      CalledWrite ''/app/src/generator/generated-backend.json'',
      LoggedError (JsError ''EACCES: permission denied'')] \<and>
   fs_files (disk (updateGeneratedBackend (\<lambda>b. Inr ''new'') ''/app''
      (exampleState (\<lambda>p. Some (FaultAtWrite (JsError ''ENOSPC: no space left on device'') 1)))
      (exampleBackend (Some [])))) ''/app/src/generator/generated-backend.json'' = Some ''n'' \<and>
   generatedBackend (updateGeneratedBackend (\<lambda>b. Inr ''new'') ''/app''
      (exampleState (\<lambda>p. Some (FaultAtWrite (JsError ''ENOSPC: no space left on device'') 1)))
      (exampleBackend (Some []))) = Some (exampleBackend (Some []))"
proof -
  let ?refused = "exampleState (\<lambda>p. Some (FaultAtOpen (JsError ''EACCES: permission denied'')))"
  let ?partial = "exampleState (\<lambda>p. Some (FaultAtWrite (JsError ''ENOSPC: no space left on device'') 1))"
  let ?b = "exampleBackend (Some [])"
  let ?st = "\<lambda>b::int GeneratedBackend. (Inr ''new'' :: jsThrown + string)"
  have f: "fs_writeFault (disk ?refused) (''/app'' @ ''/src/generator/generated-backend.json'') =
     Some (FaultAtOpen (JsError ''EACCES: permission denied''))"
    by (simp add: exampleState_def exampleDisk_def)
  have g: "fs_writeFault (disk ?partial) (''/app'' @ ''/src/generator/generated-backend.json'') =
     Some (FaultAtWrite (JsError ''ENOSPC: no space left on device'') 1)"
    by (simp add: exampleState_def exampleDisk_def)
  have o: "fs_files (disk ?refused) ''/app/src/generator/generated-backend.json'' = Some ''old''"
    "fs_files (disk ?partial) ''/app/src/generator/generated-backend.json'' = Some ''old''"
    by (simp_all add: exampleState_def exampleDisk_def)
  have ev: "events (updateGeneratedBackend ?st ''/app'' ?refused ?b) =
     [Installed, CalledExists ''/app/src/generator'',
      CalledWrite ''/app/src/generator/generated-backend.json'',
      LoggedError (JsError ''EACCES: permission denied'')]"
    by (simp add: updateGeneratedBackend_def saveBackend_def Let_def exampleState_def exampleDisk_def
        existsSync_def writeFileSync_def)
  have w: "fs_files (disk (updateGeneratedBackend ?st ''/app'' ?partial ?b))
      ''/app/src/generator/generated-backend.json'' = Some ''n''"
    by (simp add: updateGeneratedBackend_def saveBackend_def Let_def exampleState_def exampleDisk_def
        existsSync_def writeFileSync_def)
  from C10_memory_before_disk [of ?st "''/app''" ?refused ?b "FaultAtOpen (JsError ''EACCES: permission denied'')"]
    C10_memory_before_disk [of ?st "''/app''" ?partial ?b
      "FaultAtWrite (JsError ''ENOSPC: no space left on device'') 1"]
    f g o ev w
  show ?thesis by simp
qed

end
